theory Spec2Isabelle
  imports
    Main
    "HOL-Library.Char_ord"
    "HOL-Library.List_Lexorder"
    "HOL-Library.Word"
begin

unbundle bit_operations_syntax

section \<open>Strings and paths as the engine uses them\<close>

text \<open>
  Python 2 byte strings are \<^typ>\<open>string\<close>. The helpers below are the few string methods
  of \<^verbatim>\<open>engine.py\<close>: \<^verbatim>\<open>startswith\<close>, \<^verbatim>\<open>endswith\<close>, \<^verbatim>\<open>in\<close>,
  \<^verbatim>\<open>split(sep)[0]\<close>, \<^verbatim>\<open>split(':')\<close>, \<^verbatim>\<open>rstrip()\<close> and \<^verbatim>\<open>os.path.join\<close>.
\<close>

definition startswith :: "string \<Rightarrow> string \<Rightarrow> bool" where
  "startswith s p = (take (length p) s = p)"

definition endswith :: "string \<Rightarrow> string \<Rightarrow> bool" where
  "endswith s p = (length p \<le> length s \<and> drop (length s - length p) s = p)"


fun before_sep :: "string \<Rightarrow> string \<Rightarrow> string" where
  "before_sep sep [] = []"
| "before_sep sep (c # cs) =
     (if startswith (c # cs) sep then [] else c # before_sep sep cs)"

fun split_on :: "char \<Rightarrow> string \<Rightarrow> string list" where
  "split_on d [] = [[]]"
| "split_on d (c # cs) =
     (if c = d then [] # split_on d cs
      else (case split_on d cs of [] \<Rightarrow> [[c]] | x # xs \<Rightarrow> (c # x) # xs))"

definition is_space :: "char \<Rightarrow> bool" where
  "is_space c = (c \<in> set [CHR '' '', CHR 0x09, CHR 0x0A, CHR 0x0B, CHR 0x0C, CHR 0x0D])"

definition rstrip :: "string \<Rightarrow> string" where
  "rstrip s = rev (dropWhile is_space (rev s))"

definition path_join :: "string \<Rightarrow> string \<Rightarrow> string" where
  "path_join a b =
     (if startswith b ''/'' then b
      else if a = [] \<or> endswith a ''/'' then a @ b
      else a @ ''/'' @ b)"

definition quoted :: "string \<Rightarrow> string" where
  "quoted s = [CHR 0x22] @ s @ [CHR 0x22]"

definition pystr :: "string option \<Rightarrow> string" where
  "pystr v = (case v of None \<Rightarrow> ''None'' | Some s \<Rightarrow> s)"

definition truthy :: "string option \<Rightarrow> bool" where
  "truthy v = (case v of None \<Rightarrow> False | Some s \<Rightarrow> s \<noteq> [])"

section \<open>Module constants\<close>

definition BOOTLOADER__AUTO :: string where "BOOTLOADER__AUTO = ''auto''"
definition BOOTLOADER__CHROOT_GRUB2__DEVICE :: string where
  "BOOTLOADER__CHROOT_GRUB2__DEVICE = ''chroot-grub2-device''"
definition BOOTLOADER__CHROOT_GRUB2__DRIVE :: string where
  "BOOTLOADER__CHROOT_GRUB2__DRIVE = ''chroot-grub2-drive''"
definition BOOTLOADER__HOST_GRUB2__DEVICE :: string where
  "BOOTLOADER__HOST_GRUB2__DEVICE = ''host-grub2-device''"
definition BOOTLOADER__HOST_GRUB2__DRIVE :: string where
  "BOOTLOADER__HOST_GRUB2__DRIVE = ''host-grub2-drive''"
definition BOOTLOADER__NONE :: string where "BOOTLOADER__NONE = ''none''"

definition MOUNTPOINT_PARENT_DIR :: string where "MOUNTPOINT_PARENT_DIR = ''/mnt''"
definition CHROOT_SCRIPT_TARGET_DIR :: string where
  "CHROOT_SCRIPT_TARGET_DIR = ''root/chroot-scripts/''"

definition NON_DISK_MOUNT_TASKS :: "(string \<times> string list \<times> string) list" where
  "NON_DISK_MOUNT_TASKS =
     [(''/dev'', [''-o'', ''bind''], ''dev''),
      (''/dev/pts'', [''-o'', ''bind''], ''dev/pts''),
      (''PROC'', [''-t'', ''proc''], ''proc''),
      (''/sys'', [''-o'', ''bind''], ''sys'')]"

definition DISK_ID_OFFSET :: nat where "DISK_ID_OFFSET = 440"
definition DISK_ID_COUNT_BYTES :: nat where "DISK_ID_COUNT_BYTES = 4"

definition COMMAND_BLKID :: string where "COMMAND_BLKID = ''blkid''"
definition COMMAND_CHMOD :: string where "COMMAND_CHMOD = ''chmod''"
definition COMMAND_CHROOT :: string where "COMMAND_CHROOT = ''chroot''"
definition COMMAND_CP :: string where "COMMAND_CP = ''cp''"
definition COMMAND_KPARTX :: string where "COMMAND_KPARTX = ''kpartx''"
definition COMMAND_MKDIR :: string where "COMMAND_MKDIR = ''mkdir''"
definition COMMAND_MKFS_EXT4 :: string where "COMMAND_MKFS_EXT4 = ''mkfs.ext4''"
definition COMMAND_MOUNT :: string where "COMMAND_MOUNT = ''mount''"
definition COMMAND_PARTED :: string where "COMMAND_PARTED = ''parted''"
definition COMMAND_PARTPROBE :: string where "COMMAND_PARTPROBE = ''partprobe''"
definition COMMAND_RM :: string where "COMMAND_RM = ''rm''"
definition COMMAND_RMDIR :: string where "COMMAND_RMDIR = ''rmdir''"
definition COMMAND_SED :: string where "COMMAND_SED = ''sed''"
definition COMMAND_TUNE2FS :: string where "COMMAND_TUNE2FS = ''tune2fs''"
definition COMMAND_UMOUNT :: string where "COMMAND_UMOUNT = ''umount''"

definition EXIT_COMMAND_NOT_FOUND :: nat where "EXIT_COMMAND_NOT_FOUND = 127"
definition PARTITION_DELIMITER :: string where "PARTITION_DELIMITER = ''p''"

definition MODE_0755 :: nat where "MODE_0755 = 7 * 64 + 5 * 8 + 5"

definition EPERM :: nat where "EPERM = 1"
definition ENOENT :: nat where "ENOENT = 2"
definition EBUSY :: nat where "EBUSY = 16"
definition EEXIST :: nat where "EEXIST = 17"

definition CLONE_NEWNS :: "32 word" where "CLONE_NEWNS = 0x00020000"
definition CLONE_NEWUTS :: "32 word" where "CLONE_NEWUTS = 0x04000000"

section \<open>Exceptions, the outside world and the engine's state\<close>

text \<open>
  Every exception the engine raises or lets through is a value. \<open>Foreign\<close> stands for
  whatever else a collaborator of the engine (the executor, the distribution driver, the
  mount finder, the operating system) may raise.
\<close>

datatype exn =
    CalledProcessError nat "string list"
  | OSError nat string
  | ValueError string
  | KeyError string
  | TypeError
  | AssertionError
  | Foreign string

text \<open>
  A dictionary of environment variables. A value of \<open>None\<close> is Python's \<^verbatim>\<open>None\<close>, which
  \<^verbatim>\<open>make_environment\<close> stores when the mountpoint has not been created yet.
\<close>

type_synonym env = "(string \<times> string option) list"

datatype syscall = SysUnshare "32 word" | SysSethostname string nat

datatype effect =
    OsMkdir string nat
  | OsRmdir string
  | OsRemove string
  | WriteFile string string
  | WriteAt string nat "8 word list"
  | RunDirectoryBootstrap string string string
  | CreateNetworkConfiguration string
  | GenerateGrubCfg string env
  | GenerateInitramfs string env
  | PerformPostChrootCleanUp string

datatype query = Mkdtemp string | ReadFile string | Realpath string | ChrootCommandGrub2Install

datatype listing = Listdir string | MountsBelow string

text \<open>
  The trace is the interleaved call log of everything the engine touches: the messenger,
  the executor, \<^verbatim>\<open>subprocess\<close>, \<^verbatim>\<open>time.sleep\<close>, the file system, libc, the
  distribution driver and the mount finder, each with the answer it gave. \<open>Enter\<close> and
  \<open>Leave\<close> record \<^verbatim>\<open>run\<close> calling one of the engine's methods and that method returning
  (\<open>None\<close>) or raising.
\<close>

datatype event =
    Info string
  | Warn string
  | Err string
  | Gap
  | Announce "string list"
  | Call "string list" "env option" "exn option"
  | Output "string list" "exn + string"
  | Spawn "string list" "exn + string"
  | Popen "string list" env string "exn + nat"
  | Sleep nat
  | Exists string bool
  | Syscall syscall int nat
  | Did effect "exn option"
  | Asked query "exn + string"
  | Listed listing "exn + string list"
  | Enter string
  | Leave string "exn option"

text \<open>
  The outside world answers every request of the engine. An answer may depend on
  everything that happened before (the trace), so a command can fail on its first attempt
  and succeed on its second. \<open>scribble\<close> is what a callee that was handed a dictionary
  leaves in it. \<open>normpath\<close>, \<open>strerror\<close> and \<open>require_valid_uuid\<close> (the validator of
  \<^verbatim>\<open>image_bootstrap.types.uuid\<close>) are functions of their argument alone.
\<close>

record world =
  exec_call :: "event list \<Rightarrow> string list \<Rightarrow> env option \<Rightarrow> exn option"
  exec_output :: "event list \<Rightarrow> string list \<Rightarrow> exn + string"
  subprocess_output :: "event list \<Rightarrow> string list \<Rightarrow> exn + string"
  popen_wait :: "event list \<Rightarrow> string list \<Rightarrow> env \<Rightarrow> string \<Rightarrow> exn + nat"
  scribble :: "event list \<Rightarrow> env \<Rightarrow> env"
  path_exists :: "event list \<Rightarrow> string \<Rightarrow> bool"
  libc :: "event list \<Rightarrow> syscall \<Rightarrow> int \<times> nat"
  perform :: "event list \<Rightarrow> effect \<Rightarrow> exn option"
  answer :: "event list \<Rightarrow> query \<Rightarrow> exn + string"
  entries :: "event list \<Rightarrow> listing \<Rightarrow> exn + string list"
  normpath :: "string \<Rightarrow> string"
  strerror :: "nat \<Rightarrow> string"
  require_valid_uuid :: "string \<Rightarrow> exn option"

record disk_identifier =
  byte_sequence :: "8 word list"
  as_text :: string

text \<open>
  The fields of \<^verbatim>\<open>BootstrapEngine\<close>, then the part of the process the engine shares with
  its callees: the dictionaries on the heap (\<^verbatim>\<open>os.environ\<close> lives at reference 0) and
  the trace.
\<close>

record engine =
  hostname :: string
  architecture :: string
  root_password :: "string option"
  abs_root_password_file :: "string option"
  abs_etc_resolv_conf :: string
  disk_id :: "disk_identifier option"
  abs_scripts_dir_pre :: "string option"
  abs_scripts_dir_chroot :: "string option"
  abs_scripts_dir_post :: "string option"
  abs_target_path :: string
  command_grub2_install :: "string option"
  bootloader_approach :: string
  bootloader_force :: bool
  abs_mountpoint :: "string option"
  abs_first_partition_device :: "string option"
  first_partition_uuid :: "string option"
  heap :: "nat \<Rightarrow> env"
  next_ref :: nat
  trace :: "event list"

definition ENVIRON :: nat where "ENVIRON = 0"

section \<open>Actions: state passing with exceptions\<close>

type_synonym 'a action = "engine \<Rightarrow> (exn + 'a) \<times> engine"

definition ret :: "'a \<Rightarrow> 'a action" where
  "ret x s = (Inr x, s)"

definition raise :: "exn \<Rightarrow> 'a action" where
  "raise e s = (Inl e, s)"

definition bindE :: "'a action \<Rightarrow> ('a \<Rightarrow> 'b action) \<Rightarrow> 'b action" where
  "bindE m f s = (case m s of (Inl e, s') \<Rightarrow> (Inl e, s') | (Inr x, s') \<Rightarrow> f x s')"

definition seq :: "unit action \<Rightarrow> 'a action \<Rightarrow> 'a action" where
  "seq m n = bindE m (\<lambda>_. n)"

fun sequence :: "unit action list \<Rightarrow> unit action" where
  "sequence [] = ret ()"
| "sequence (m # ms) = seq m (sequence ms)"

text \<open>
  \<^verbatim>\<open>try: body finally: fin\<close>. The \<^verbatim>\<open>finally\<close> block runs whatever the body did; when it
  raises, its exception replaces the body's result or exception (Python 2 keeps no
  record of the one it replaces).
\<close>

definition try_finally :: "'a action \<Rightarrow> unit action \<Rightarrow> 'a action" where
  "try_finally body fin s =
     (case body s of (r, s') \<Rightarrow>
        (case fin s' of (Inl e, s'') \<Rightarrow> (Inl e, s'') | (Inr u, s'') \<Rightarrow> (r, s'')))"

definition emit :: "event \<Rightarrow> unit action" where
  "emit e s = (Inr (), s\<lparr>trace := trace s @ [e]\<rparr>)"

definition info :: "string \<Rightarrow> unit action" where
  "info msg = emit (Info msg)"

definition sleep :: "nat \<Rightarrow> unit action" where
  "sleep n = emit (Sleep n)"

text \<open>A field that is still \<^verbatim>\<open>None\<close> where a string is needed is a type error.\<close>

definition need :: "string option \<Rightarrow> string action" where
  "need v = (case v of None \<Rightarrow> raise TypeError | Some x \<Rightarrow> ret x)"

text \<open>\<open>run\<close> calling the method \<open>name\<close> of the engine.\<close>

definition invoke :: "string \<Rightarrow> unit action \<Rightarrow> unit action" where
  "invoke name m s =
     (case m (s\<lparr>trace := trace s @ [Enter name]\<rparr>) of (r, s') \<Rightarrow>
        (r, s'\<lparr>trace := trace s' @ [Leave name (case r of Inl e \<Rightarrow> Some e | Inr u \<Rightarrow> None)]\<rparr>))"

subsection \<open>Requests to the outside world\<close>

text \<open>
  \<^verbatim>\<open>executor.check_call(cmd, env=env)\<close>; \<open>env\<close> is a reference to a dictionary or
  \<open>None\<close>. The callee sees the dictionary's content and may change it.
\<close>

definition check_call :: "world \<Rightarrow> string list \<Rightarrow> nat option \<Rightarrow> unit action" where
  "check_call w cmd env s =
     (let d = map_option (heap s) env;
          r = exec_call w (trace s) cmd d;
          h = (case env of None \<Rightarrow> heap s
               | Some a \<Rightarrow> (heap s)(a := scribble w (trace s) (heap s a)));
          s' = s\<lparr>heap := h, trace := trace s @ [Call cmd d r]\<rparr>
      in (case r of None \<Rightarrow> (Inr (), s') | Some e \<Rightarrow> (Inl e, s')))"

definition check_output :: "world \<Rightarrow> string list \<Rightarrow> string action" where
  "check_output w cmd s =
     (let r = exec_output w (trace s) cmd
      in (r, s\<lparr>trace := trace s @ [Output cmd r]\<rparr>))"

definition subprocess_check_output :: "world \<Rightarrow> string list \<Rightarrow> string action" where
  "subprocess_check_output w cmd s =
     (let r = subprocess_output w (trace s) cmd
      in (r, s\<lparr>trace := trace s @ [Spawn cmd r]\<rparr>))"

definition os_path_exists :: "world \<Rightarrow> string \<Rightarrow> bool action" where
  "os_path_exists w p s =
     (let b = path_exists w (trace s) p
      in (Inr b, s\<lparr>trace := trace s @ [Exists p b]\<rparr>))"

definition do_effect :: "world \<Rightarrow> effect \<Rightarrow> unit action" where
  "do_effect w eff s =
     (let r = perform w (trace s) eff;
          s' = s\<lparr>trace := trace s @ [Did eff r]\<rparr>
      in (case r of None \<Rightarrow> (Inr (), s') | Some e \<Rightarrow> (Inl e, s')))"

text \<open>An effect whose callee is handed the dictionary at reference \<open>a\<close>.\<close>

definition do_effect_env :: "world \<Rightarrow> (env \<Rightarrow> effect) \<Rightarrow> nat \<Rightarrow> unit action" where
  "do_effect_env w eff a s =
     (let r = perform w (trace s) (eff (heap s a));
          s' = s\<lparr>heap := (heap s)(a := scribble w (trace s) (heap s a)),
                 trace := trace s @ [Did (eff (heap s a)) r]\<rparr>
      in (case r of None \<Rightarrow> (Inr (), s') | Some e \<Rightarrow> (Inl e, s')))"

definition ask :: "world \<Rightarrow> query \<Rightarrow> string action" where
  "ask w q s =
     (let r = answer w (trace s) q
      in (r, s\<lparr>trace := trace s @ [Asked q r]\<rparr>))"

definition list_entries :: "world \<Rightarrow> listing \<Rightarrow> string list action" where
  "list_entries w q s =
     (let r = entries w (trace s) q
      in (r, s\<lparr>trace := trace s @ [Listed q r]\<rparr>))"

definition call_libc :: "world \<Rightarrow> syscall \<Rightarrow> (int \<times> nat) action" where
  "call_libc w c s =
     (let r = libc w (trace s) c
      in (Inr r, s\<lparr>trace := trace s @ [Syscall c (fst r) (snd r)]\<rparr>))"

text \<open>
  \<^verbatim>\<open>subprocess.Popen(cmd, stdin=PIPE, env=env)\<close>, writing \<open>input\<close> to its standard
  input and waiting for it; a non-zero return code is raised as \<open>CalledProcessError\<close>.
\<close>

definition popen :: "world \<Rightarrow> string list \<Rightarrow> nat \<Rightarrow> string \<Rightarrow> unit action" where
  "popen w cmd a input s =
     (let r = popen_wait w (trace s) cmd (heap s a) input;
          s' = s\<lparr>heap := (heap s)(a := scribble w (trace s) (heap s a)),
                 trace := trace s @ [Popen cmd (heap s a) input r]\<rparr>
      in (case r of
            Inl e \<Rightarrow> (Inl e, s')
          | Inr rc \<Rightarrow> if rc \<noteq> 0 then (Inl (CalledProcessError rc cmd), s') else (Inr (), s')))"

subsection \<open>Dictionaries on the heap\<close>

definition dict_copy :: "nat \<Rightarrow> nat action" where
  "dict_copy a s =
     (Inr (next_ref s),
      s\<lparr>heap := (heap s)(next_ref s := heap s a), next_ref := Suc (next_ref s)\<rparr>)"

definition dict_pop :: "nat \<Rightarrow> string \<Rightarrow> unit action" where
  "dict_pop a k s = (Inr (), s\<lparr>heap := (heap s)(a := filter (\<lambda>kv. fst kv \<noteq> k) (heap s a))\<rparr>)"

fun dict_set :: "string \<Rightarrow> string option \<Rightarrow> env \<Rightarrow> env" where
  "dict_set k v [] = [(k, v)]"
| "dict_set k v (p # ps) = (if fst p = k then (k, v) # ps else p # dict_set k v ps)"

definition dict_update :: "nat \<Rightarrow> (string \<times> string option) list \<Rightarrow> unit action" where
  "dict_update a kvs s =
     (Inr (), s\<lparr>heap := (heap s)(a := fold (\<lambda>kv d. dict_set (fst kv) (snd kv) d) kvs (heap s a))\<rparr>)"


definition if_then :: "(engine \<Rightarrow> bool) \<Rightarrow> unit action \<Rightarrow> unit action" where
  "if_then c m s = (if c s then m s else (Inr (), s))"

definition if_then_else :: "(engine \<Rightarrow> bool) \<Rightarrow> 'a action \<Rightarrow> 'a action \<Rightarrow> 'a action" where
  "if_then_else c m n s = (if c s then m s else n s)"

text \<open>A method body reading the fields of \<^verbatim>\<open>self\<close> as they are when it starts.\<close>

definition with_self :: "(engine \<Rightarrow> 'a action) \<Rightarrow> 'a action" where
  "with_self f s = f s s"

definition squoted :: "string \<Rightarrow> string" where
  "squoted s = [CHR 0x27] @ s @ [CHR 0x27]"

section \<open>The methods of the engine\<close>

subsection \<open>The retry loop\<close>

text \<open>
  The loop that \<^verbatim>\<open>_partition_device\<close>, \<^verbatim>\<open>_kpartx_minus_a\<close>, \<^verbatim>\<open>_try_unmounting\<close> and
  \<^verbatim>\<open>_kpartx_minus_d\<close> each spell out:
  \<^verbatim>\<open>
  for i in range(3):
      try:
          self._executor.check_call(cmd)
      except subprocess.CalledProcessError as e:
          if e.returncode == _EXIT_COMMAND_NOT_FOUND:
              raise
          time.sleep(1)
      else:
          break
  \<close>
  with the number of rounds left as the recursion's argument. The loop has no
  \<^verbatim>\<open>else\<close> branch of its own: when the rounds are used up the method goes on.
\<close>

fun check_call_retrying :: "world \<Rightarrow> string list \<Rightarrow> nat \<Rightarrow> unit action" where
  "check_call_retrying w cmd 0 s = (Inr (), s)"
| "check_call_retrying w cmd (Suc n) s =
     (case check_call w cmd None s of
        (Inr u, s') \<Rightarrow> (Inr (), s')
      | (Inl (CalledProcessError rc c), s') \<Rightarrow>
          if rc = EXIT_COMMAND_NOT_FOUND then (Inl (CalledProcessError rc c), s')
          else check_call_retrying w cmd n (snd (sleep 1 s'))
      | (Inl e, s') \<Rightarrow> (Inl e, s'))"

definition partition_device :: "world \<Rightarrow> unit action" where
  "partition_device w =
     with_self (\<lambda>s.
     sequence
       [info (''Partitioning '' @ quoted (abs_target_path s) @ ''...''),
        check_call w
          [COMMAND_PARTED, ''--script'', abs_target_path s, ''mklabel'', ''msdos''] None,
        check_call w
          [COMMAND_PARTED, ''--align'', ''optimal'', ''--script'', abs_target_path s,
           ''mkpart'', ''primary'', ''ext4'', ''1'', ''100%''] None,
        sleep 1,
        check_call_retrying w
          [COMMAND_PARTED, ''--script'', abs_target_path s, ''set'', ''1'', ''boot'', ''on''] 3])"

definition try_unmounting :: "world \<Rightarrow> string \<Rightarrow> unit action" where
  "try_unmounting w abs_path = check_call_retrying w [COMMAND_UMOUNT, abs_path] 3"

definition kpartx_minus_d :: "world \<Rightarrow> unit action" where
  "kpartx_minus_d w =
     with_self (\<lambda>s.
     sequence
       [info ''Deactivating partition devices...'',
        check_call_retrying w
          [COMMAND_KPARTX, ''-d'', ''-p'', PARTITION_DELIMITER, abs_target_path s] 3])"

subsection \<open>Pre-flight: finding grub2-install\<close>






subsection \<open>Isolation, partitioning, activation\<close>

definition errno_or_EPERM :: "nat \<Rightarrow> nat" where
  "errno_or_EPERM n = (if n \<noteq> 0 then n else EPERM)"

definition unshare :: "world \<Rightarrow> unit action" where
  "unshare w =
     with_self (\<lambda>s.
     (let name = takeWhile (\<lambda>c. c \<noteq> CHR 0x00) (hostname s) in
      sequence
        [info ''Unsharing Linux namespaces (mount, UTS/hostname)...'',
         bindE (call_libc w (SysUnshare (CLONE_NEWNS OR CLONE_NEWUTS)))
           (\<lambda>r. if fst r \<noteq> 0
                 then raise (OSError (errno_or_EPERM (snd r))
                        (''Unsharing Linux namespaces failed: ''
                         @ strerror w (errno_or_EPERM (snd r))))
                 else ret ()),
         bindE (call_libc w (SysSethostname name (length name)))
           (\<lambda>r. if fst r \<noteq> 0
                 then raise (OSError (errno_or_EPERM (snd r))
                        (''Setting hostname failed: '' @ strerror w (errno_or_EPERM (snd r))))
                 else ret ())]))"

text \<open>
  \<^verbatim>\<open>for i in range(3): if os.path.exists(dev): break; time.sleep(1)\<close> with its
  \<^verbatim>\<open>else: raise OSError(errno.ENOENT, ...)\<close>.
\<close>

fun poll_exists :: "world \<Rightarrow> string \<Rightarrow> nat \<Rightarrow> unit action" where
  "poll_exists w dev 0 =
     raise (OSError ENOENT (''No such block device file: '' @ squoted dev))"
| "poll_exists w dev (Suc n) =
     bindE (os_path_exists w dev)
       (\<lambda>found. if found then ret () else seq (sleep 1) (poll_exists w dev n))"

definition set_first_partition_device :: "string \<Rightarrow> unit action" where
  "set_first_partition_device dev s = (Inr (), s\<lparr>abs_first_partition_device := Some dev\<rparr>)"

definition kpartx_minus_a :: "world \<Rightarrow> unit action" where
  "kpartx_minus_a w =
     with_self (\<lambda>s.
     seq (info ''Activating partition devices...'')
       (bindE (check_output w
                 [COMMAND_KPARTX, ''-l'', ''-p'', PARTITION_DELIMITER, abs_target_path s])
          (\<lambda>output.
             let device_name = before_sep '' : '' (before_sep [CHR 0x0A] output);
                 dev = ''/dev/mapper/'' @ device_name
             in sequence
                  [set_first_partition_device dev,
                   if startswith device_name ''loop''
                   then bindE (os_path_exists w dev)
                          (\<lambda>found.
                             if found
                             then raise (OSError EEXIST (''File exists: '' @ squoted dev))
                             else check_call w
                                    [COMMAND_KPARTX, ''-a'', ''-p'', PARTITION_DELIMITER, ''-s'',
                                     abs_target_path s] None)
                   else seq (sleep 1)
                          (check_call_retrying w [COMMAND_PARTPROBE, abs_target_path s] 3),
                   poll_exists w dev 3])))"

text \<open>
  \<^verbatim>\<open>self._disk_id\<close> is an object of \<^verbatim>\<open>image_bootstrap.types.disk_id\<close> or \<^verbatim>\<open>None\<close>;
  an object is true.
\<close>

definition set_disk_id_in_mbr :: "world \<Rightarrow> unit action" where
  "set_disk_id_in_mbr w =
     with_self (\<lambda>s.
       case disk_id s of
         None \<Rightarrow> ret ()
       | Some d \<Rightarrow>
           if length (byte_sequence d) \<noteq> DISK_ID_COUNT_BYTES then raise AssertionError
           else sequence
                  [info (''Setting MBR disk identifier to '' @ as_text d @ '' (4 bytes)...''),
                   do_effect w
                     (WriteAt (abs_target_path s) DISK_ID_OFFSET (byte_sequence d))])"

subsection \<open>Formatting, mounting, configuration files\<close>

definition format_partitions :: "world \<Rightarrow> unit action" where
  "format_partitions w =
     with_self (\<lambda>s.
     sequence
       [info (''Creating file system on '' @ quoted (pystr (abs_first_partition_device s))
              @ ''...''),
        bindE (need (abs_first_partition_device s))
          (\<lambda>dev. check_call w [COMMAND_MKFS_EXT4, ''-F'', dev] None)])"

definition set_mountpoint :: "string \<Rightarrow> unit action" where
  "set_mountpoint p s = (Inr (), s\<lparr>abs_mountpoint := Some p\<rparr>)"

definition mkdir_mountpount :: "world \<Rightarrow> unit action" where
  "mkdir_mountpount w =
     bindE (ask w (Mkdtemp MOUNTPOINT_PARENT_DIR))
       (\<lambda>p. seq (set_mountpoint p) (info (''Creating directory '' @ quoted p @ ''...'')))"

definition mkdir_mountpount_etc :: "world \<Rightarrow> unit action" where
  "mkdir_mountpount_etc w =
     with_self (\<lambda>s.
     bindE (need (abs_mountpoint s))
       (\<lambda>mp. seq (info (''Creating directory '' @ quoted (path_join mp ''etc'') @ ''...''))
                (do_effect w (OsMkdir (path_join mp ''etc'') MODE_0755))))"

definition mount_disk_chroot_mounts :: "world \<Rightarrow> unit action" where
  "mount_disk_chroot_mounts w =
     with_self (\<lambda>s.
     seq (info ''Mounting partitions...'')
       (bindE (need (abs_first_partition_device s))
          (\<lambda>dev. bindE (need (abs_mountpoint s))
             (\<lambda>mp. check_call w [COMMAND_MOUNT, dev, mp] None))))"

definition run_directory_bootstrap :: "world \<Rightarrow> unit action" where
  "run_directory_bootstrap w =
     with_self (\<lambda>s.
     bindE (need (abs_mountpoint s))
       (\<lambda>mp. do_effect w (RunDirectoryBootstrap mp (architecture s) (bootloader_approach s))))"

definition unmount_directory_bootstrap_leftovers :: "world \<Rightarrow> unit action" where
  "unmount_directory_bootstrap_leftovers w =
     with_self (\<lambda>s.
     bindE (need (abs_mountpoint s))
       (\<lambda>mp. bindE (list_entries w (MountsBelow mp))
          (\<lambda>mounts. sequence (map (try_unmounting w) (rev mounts)))))"

definition set_first_partition_uuid :: "world \<Rightarrow> unit action" where
  "set_first_partition_uuid w =
     with_self (\<lambda>s.
       if \<not> truthy (first_partition_uuid s) then ret ()
       else sequence
              [info (''Setting first partition UUID to '' @ pystr (first_partition_uuid s)
                     @ ''...''),
               bindE (need (first_partition_uuid s))
                 (\<lambda>uuid. bindE (need (abs_first_partition_device s))
                    (\<lambda>dev. check_call w [COMMAND_TUNE2FS, ''-U'', uuid, dev] None))])"

definition store_first_partition_uuid :: "string \<Rightarrow> unit action" where
  "store_first_partition_uuid u s = (Inr (), s\<lparr>first_partition_uuid := Some u\<rparr>)"

definition gather_first_partition_uuid :: "world \<Rightarrow> unit action" where
  "gather_first_partition_uuid w =
     with_self (\<lambda>s.
     bindE (need (abs_first_partition_device s))
       (\<lambda>dev. bindE (check_output w [COMMAND_BLKID, ''-o'', ''value'', ''-s'', ''UUID'', dev])
          (\<lambda>output.
             case require_valid_uuid w (rstrip output) of
               Some e \<Rightarrow> raise e
             | None \<Rightarrow> store_first_partition_uuid (rstrip output))))"

definition fstab_line :: "string \<Rightarrow> string" where
  "fstab_line uuid = ''/dev/disk/by-uuid/'' @ uuid @ '' / auto defaults 0 1''"

definition create_etc_fstab :: "world \<Rightarrow> unit action" where
  "create_etc_fstab w =
     with_self (\<lambda>s.
     bindE (need (abs_mountpoint s))
       (\<lambda>mp. let filename = path_join (path_join mp ''etc'') ''fstab'' in
          seq (info (''Writing file '' @ quoted filename @ ''...''))
            (do_effect w
               (WriteFile filename (fstab_line (pystr (first_partition_uuid s)) @ [CHR 0x0A])))))"

definition create_etc_hostname :: "world \<Rightarrow> unit action" where
  "create_etc_hostname w =
     with_self (\<lambda>s.
     bindE (need (abs_mountpoint s))
       (\<lambda>mp. let filename = path_join (path_join mp ''etc'') ''hostname'' in
          seq (info (''Writing file '' @ quoted filename @ ''...''))
            (do_effect w (WriteFile filename (hostname s @ [CHR 0x0A])))))"

definition create_network_configuration :: "world \<Rightarrow> unit action" where
  "create_network_configuration w =
     with_self (\<lambda>s.
     bindE (need (abs_mountpoint s)) (\<lambda>mp. do_effect w (CreateNetworkConfiguration mp)))"

text \<open>The lines a Python file object iterates over, without their line ends.\<close>

definition file_lines :: "string \<Rightarrow> string list" where
  "file_lines content =
     (let ls = split_on (CHR 0x0A) content in if last ls = [] then butlast ls else ls)"

definition create_etc_resolv_conf :: "world \<Rightarrow> unit action" where
  "create_etc_resolv_conf w =
     with_self (\<lambda>s.
     bindE (need (abs_mountpoint s))
       (\<lambda>mp. let output_filename = path_join (path_join mp ''etc'') ''resolv.conf'' in
          seq (info (''Writing file '' @ quoted output_filename @ '' (based on file ''
                     @ quoted (abs_etc_resolv_conf s) @ '')...''))
            (bindE (ask w (ReadFile (abs_etc_resolv_conf s)))
               (\<lambda>content.
                  do_effect w
                    (WriteFile output_filename
                       (concat (map (\<lambda>line. line @ [CHR 0x0A])
                          (filter (\<lambda>line. startswith line ''nameserver'')
                             (map rstrip (file_lines content))))))))))"

definition fix_grub_cfg_root_device :: "world \<Rightarrow> unit action" where
  "fix_grub_cfg_root_device w =
     with_self (\<lambda>s.
     seq (info ''Post-processing GRUB config...'')
       (bindE (need (abs_mountpoint s))
          (\<lambda>mp. check_call w
             [COMMAND_SED,
              ''s,root=[^ ]'' @ [CHR 0x5C] @ ''+,root=UUID='' @ pystr (first_partition_uuid s)
              @ '',g'',
              ''-i'',
              path_join (path_join (path_join mp ''boot'') ''grub'') ''grub.cfg''] None)))"

subsection \<open>Scripts and their environment\<close>

definition script_should_be_run :: "string \<Rightarrow> bool" where
  "script_should_be_run basename =
     (if startswith basename ''.'' then False
      else if endswith basename ''~'' then False
      else True)"

definition make_environment :: "bool \<Rightarrow> nat action" where
  "make_environment tell_mountpoint =
     with_self (\<lambda>s.
       bindE (dict_copy ENVIRON)
         (\<lambda>env.
            seq (sequence
                   [dict_pop env ''LANG'',
                    dict_pop env ''LANGUAGE'',
                    dict_update env
                      [(''HOSTNAME'', Some (hostname s)),
                       (''IB_HOSTNAME'', Some (hostname s)),
                       (''LC_ALL'', Some ''C'')],
                    if tell_mountpoint
                    then dict_update env
                           [(''IB_ROOT'', abs_mountpoint s),
                            (''MNTPOINT'', abs_mountpoint s)]
                    else ret ()])
              (ret env)))"

definition run_scripts_from :: "world \<Rightarrow> string \<Rightarrow> nat \<Rightarrow> unit action" where
  "run_scripts_from w abs_scripts_dir env =
     bindE (list_entries w (Listdir abs_scripts_dir))
       (\<lambda>names.
          sequence
            (map (\<lambda>basename.
                    bindE (dict_copy env)
                      (\<lambda>copy. check_call w [path_join abs_scripts_dir basename] (Some copy)))
               (filter script_should_be_run (sort names))))"

definition run_pre_scripts :: "world \<Rightarrow> unit action" where
  "run_pre_scripts w =
     with_self (\<lambda>s.
       seq (info ''Running pre-chroot scripts...'')
         (bindE (make_environment True)
            (\<lambda>env. case abs_scripts_dir_pre s of
                      None \<Rightarrow> ret ()
                    | Some d \<Rightarrow> if d = [] then ret () else run_scripts_from w d env)))"

definition run_post_scripts :: "world \<Rightarrow> unit action" where
  "run_post_scripts w =
     with_self (\<lambda>s.
       seq (info ''Running post-chroot scripts...'')
         (bindE (make_environment True)
            (\<lambda>env. case abs_scripts_dir_post s of
                      None \<Rightarrow> ret ()
                    | Some d \<Rightarrow> if d = [] then ret () else run_scripts_from w d env)))"

definition copy_chroot_scripts :: "world \<Rightarrow> unit action" where
  "copy_chroot_scripts w =
     with_self (\<lambda>s.
     seq (info ''Copying chroot scripts into chroot...'')
       (bindE (need (abs_mountpoint s))
          (\<lambda>mp. seq (check_call w [COMMAND_MKDIR, path_join mp CHROOT_SCRIPT_TARGET_DIR] None)
             (bindE (need (abs_scripts_dir_chroot s))
                (\<lambda>dir. bindE (list_entries w (Listdir dir))
                   (\<lambda>names.
                      sequence
                        (map (\<lambda>basename.
                                let abs_path_source = path_join dir basename;
                                    abs_path_target =
                                      path_join (path_join mp CHROOT_SCRIPT_TARGET_DIR) basename
                                in seq (check_call w
                                          [COMMAND_CP, abs_path_source, abs_path_target] None)
                                     (check_call w
                                          [COMMAND_CHMOD, ''a+x'', abs_path_target] None))
                           (filter script_should_be_run names))))))))"

definition run_chroot_scripts :: "world \<Rightarrow> unit action" where
  "run_chroot_scripts w =
     with_self (\<lambda>s.
     seq (info ''Running chroot scripts...'')
       (bindE (make_environment False)
          (\<lambda>env. bindE (need (abs_scripts_dir_chroot s))
             (\<lambda>dir. bindE (list_entries w (Listdir dir))
                (\<lambda>names.
                   sequence
                     (map (\<lambda>basename.
                             bindE (need (abs_mountpoint s))
                               (\<lambda>mp. bindE (dict_copy env)
                                  (\<lambda>copy. check_call w
                                     [COMMAND_CHROOT, mp,
                                      path_join (path_join ''/'' CHROOT_SCRIPT_TARGET_DIR) basename]
                                     (Some copy))))
                        (filter script_should_be_run names)))))))"

definition remove_chroot_scripts :: "world \<Rightarrow> unit action" where
  "remove_chroot_scripts w =
     with_self (\<lambda>s.
     seq (info ''Removing chroot scripts...'')
       (bindE (need (abs_scripts_dir_chroot s))
          (\<lambda>dir. bindE (list_entries w (Listdir dir))
             (\<lambda>names.
                bindE (need (abs_mountpoint s))
                  (\<lambda>mp.
                     seq (sequence
                            (map (\<lambda>basename.
                                    check_call w
                                      [COMMAND_RM,
                                       path_join (path_join mp CHROOT_SCRIPT_TARGET_DIR) basename]
                                      None)
                               (filter script_should_be_run names)))
                       (check_call w
                          [COMMAND_RMDIR, path_join mp CHROOT_SCRIPT_TARGET_DIR] None))))))"

subsection \<open>Non-disk mounts, bootloader, root password\<close>

definition mount_nondisk_chroot_mounts :: "world \<Rightarrow> unit action" where
  "mount_nondisk_chroot_mounts w =
     with_self (\<lambda>s.
     seq (info ''Mounting non-disk file systems...'')
       (sequence
          (map (\<lambda>(source, options, target).
                  bindE (need (abs_mountpoint s))
                    (\<lambda>mp. check_call w
                            ([COMMAND_MOUNT, source] @ options @ [path_join mp target]) None))
             NON_DISK_MOUNT_TASKS)))"

definition unmount_nondisk_chroot_mounts :: "world \<Rightarrow> unit action" where
  "unmount_nondisk_chroot_mounts w =
     with_self (\<lambda>s.
     seq (info ''Unmounting non-disk file systems...'')
       (sequence
          (map (\<lambda>(source, options, target).
                  bindE (need (abs_mountpoint s))
                    (\<lambda>mp. try_unmounting w (path_join mp target)))
             (rev NON_DISK_MOUNT_TASKS))))"

fun join_with :: "string \<Rightarrow> string list \<Rightarrow> string" where
  "join_with sep [] = []"
| "join_with sep [x] = x"
| "join_with sep (x # y # ys) = x @ sep @ join_with sep (y # ys)"

definition create_bootloader_install_message :: "world \<Rightarrow> engine \<Rightarrow> string \<Rightarrow> string" where
  "create_bootloader_install_message w s real_abs_target =
     (let hints =
            (if real_abs_target \<noteq> normpath w (abs_target_path s)
             then [''actually '' @ quoted real_abs_target] else [])
            @ [''approach '' @ quoted (bootloader_approach s)]
      in ''Installing bootloader to device '' @ quoted (abs_target_path s) @ '' (''
         @ join_with '', '' hints @ '')...'')"

definition abs_chroot_device_map :: "string \<Rightarrow> string" where
  "abs_chroot_device_map mp =
     path_join (path_join (path_join mp ''boot'') ''grub'') ''device.map''"

definition grub_drive :: string where
  "grub_drive = ''(hd0)''"

definition install_bootloader__grub2 :: "world \<Rightarrow> unit action" where
  "install_bootloader__grub2 w =
     with_self (\<lambda>s.
     (let use_chroot =
            (bootloader_approach s
               \<in> set [BOOTLOADER__CHROOT_GRUB2__DEVICE, BOOTLOADER__CHROOT_GRUB2__DRIVE]);
          use_device_map =
            (bootloader_approach s
               \<in> set [BOOTLOADER__CHROOT_GRUB2__DRIVE, BOOTLOADER__HOST_GRUB2__DRIVE])
      in bindE (ask w (Realpath (abs_target_path s)))
           (\<lambda>real_abs_target.
              sequence
                [if use_device_map
                 then bindE (need (abs_mountpoint s))
                        (\<lambda>mp. seq (info (''Writing device map to ''
                                         @ quoted (abs_chroot_device_map mp) @ '' (mapping ''
                                         @ quoted grub_drive @ '' to ''
                                         @ quoted real_abs_target @ '')...''))
                                 (do_effect w
                                    (WriteFile (abs_chroot_device_map mp)
                                       (grub_drive @ [CHR 0x09] @ real_abs_target
                                        @ [CHR 0x0A]))))
                 else ret (),
                 info (create_bootloader_install_message w s real_abs_target),
                 bindE (need (abs_mountpoint s))
                   (\<lambda>mp.
                      bindE (if use_chroot
                             then bindE (ask w ChrootCommandGrub2Install)
                                    (\<lambda>c. bindE (make_environment False)
                                            (\<lambda>env. ret ([COMMAND_CHROOT, mp, c], Some env)))
                             else bindE (need (command_grub2_install s))
                                    (\<lambda>c. ret ([c, ''--boot-directory'', path_join mp ''boot''],
                                               None)))
                        (\<lambda>cmd_env.
                           check_call w
                             (fst cmd_env
                              @ (if bootloader_force s then [''--force''] else [])
                              @ [if use_device_map then grub_drive else abs_target_path s])
                             (snd cmd_env))),
                 if use_device_map
                 then bindE (need (abs_mountpoint s))
                        (\<lambda>mp. do_effect w (OsRemove (abs_chroot_device_map mp)))
                 else ret ()])))"

definition generate_grub_cfg_from_inside_chroot :: "world \<Rightarrow> unit action" where
  "generate_grub_cfg_from_inside_chroot w =
     with_self (\<lambda>s.
     bindE (make_environment False)
       (\<lambda>env. bindE (need (abs_mountpoint s))
          (\<lambda>mp. do_effect_env w (GenerateGrubCfg mp) env)))"

definition generate_initramfs_from_inside_chroot :: "world \<Rightarrow> unit action" where
  "generate_initramfs_from_inside_chroot w =
     with_self (\<lambda>s.
     bindE (make_environment False)
       (\<lambda>env. bindE (need (abs_mountpoint s))
          (\<lambda>mp. do_effect_env w (GenerateInitramfs mp) env)))"

definition set_root_password_inside_chroot :: "world \<Rightarrow> unit action" where
  "set_root_password_inside_chroot w =
     with_self (\<lambda>s.
     seq (info ''Setting root password...'')
       (case root_password s of
          None \<Rightarrow> ret ()
        | Some password \<Rightarrow>
            bindE (need (abs_mountpoint s))
              (\<lambda>mp. bindE (make_environment False)
                 (\<lambda>env. seq (emit (Announce [COMMAND_CHROOT, mp, ''chpasswd'']))
                    (popen w [COMMAND_CHROOT, mp, ''chpasswd''] env (''root:'' @ password))))))"

definition perform_post_chroot_clean_up :: "world \<Rightarrow> unit action" where
  "perform_post_chroot_clean_up w =
     with_self (\<lambda>s.
     bindE (need (abs_mountpoint s)) (\<lambda>mp. do_effect w (PerformPostChrootCleanUp mp)))"

subsection \<open>Teardown\<close>

definition unmount_disk_chroot_mounts :: "world \<Rightarrow> unit action" where
  "unmount_disk_chroot_mounts w =
     with_self (\<lambda>s.
     seq (info ''Unmounting partitions...'')
       (bindE (need (abs_mountpoint s)) (\<lambda>mp. try_unmounting w mp)))"

text \<open>
  The loop of \<^verbatim>\<open>_rmdir_mountpount\<close>: \<^verbatim>\<open>os.rmdir\<close> is tried again after a second
  when it fails with \<^verbatim>\<open>EBUSY\<close>; any other error is raised.
\<close>

fun rmdir_retrying :: "world \<Rightarrow> string \<Rightarrow> nat \<Rightarrow> unit action" where
  "rmdir_retrying w p 0 s = (Inr (), s)"
| "rmdir_retrying w p (Suc n) s =
     (case do_effect w (OsRmdir p) s of
        (Inr u, s') \<Rightarrow> (Inr (), s')
      | (Inl (OSError errno msg), s') \<Rightarrow>
          if errno \<noteq> EBUSY then (Inl (OSError errno msg), s')
          else rmdir_retrying w p n (snd (sleep 1 s'))
      | (Inl e, s') \<Rightarrow> (Inl e, s'))"

definition rmdir_mountpount :: "world \<Rightarrow> unit action" where
  "rmdir_mountpount w =
     with_self (\<lambda>s.
     seq (info (''Removing directory '' @ quoted (pystr (abs_mountpoint s)) @ ''...''))
       (bindE (need (abs_mountpoint s)) (\<lambda>mp. rmdir_retrying w mp 3)))"

section \<open>The pipeline\<close>

text \<open>
  \<^verbatim>\<open>BootstrapEngine.run\<close>, one definition for each nested \<^verbatim>\<open>try\<close> block, innermost
  first.
\<close>

definition uses_chroot_grub2 :: "engine \<Rightarrow> bool" where
  "uses_chroot_grub2 s =
     (bootloader_approach s
        \<in> set [BOOTLOADER__CHROOT_GRUB2__DEVICE, BOOTLOADER__CHROOT_GRUB2__DRIVE])"

definition uses_host_grub2 :: "engine \<Rightarrow> bool" where
  "uses_host_grub2 s =
     (bootloader_approach s
        \<in> set [BOOTLOADER__HOST_GRUB2__DEVICE, BOOTLOADER__HOST_GRUB2__DRIVE])"

definition run_in_chroot_mounts :: "world \<Rightarrow> unit action" where
  "run_in_chroot_mounts w =
     sequence
       [invoke ''_set_root_password_inside_chroot'' (set_root_password_inside_chroot w),
        if_then uses_chroot_grub2
          (invoke ''_install_bootloader__grub2'' (install_bootloader__grub2 w)),
        if_then (\<lambda>s. bootloader_approach s \<noteq> BOOTLOADER__NONE)
          (sequence
             [info ''Generating GRUB configuration...'',
              invoke ''generate_grub_cfg_from_inside_chroot''
                (generate_grub_cfg_from_inside_chroot w),
              invoke ''_fix_grub_cfg_root_device'' (fix_grub_cfg_root_device w)]),
        info ''Generating initramfs...'',
        invoke ''generate_initramfs_from_inside_chroot''
          (generate_initramfs_from_inside_chroot w),
        if_then (\<lambda>s. truthy (abs_scripts_dir_chroot s))
          (seq (invoke ''_copy_chroot_scripts'' (copy_chroot_scripts w))
             (try_finally
                (invoke ''_run_chroot_scripts'' (run_chroot_scripts w))
                (invoke ''_remove_chroot_scripts'' (remove_chroot_scripts w))))]"

definition run_in_partition_mount :: "world \<Rightarrow> unit action" where
  "run_in_partition_mount w =
     sequence
       [invoke ''_mkdir_mountpount_etc'' (mkdir_mountpount_etc w),
        invoke ''_create_etc_hostname'' (create_etc_hostname w),
        invoke ''_create_etc_resolv_conf'' (create_etc_resolv_conf w),
        try_finally
          (invoke ''run_directory_bootstrap'' (run_directory_bootstrap w))
          (invoke ''_unmount_directory_bootstrap_leftovers''
             (unmount_directory_bootstrap_leftovers w)),
        invoke ''_create_etc_hostname'' (create_etc_hostname w),
        invoke ''_create_etc_resolv_conf'' (create_etc_resolv_conf w),
        invoke ''_create_etc_fstab'' (create_etc_fstab w),
        invoke ''create_network_configuration'' (create_network_configuration w),
        invoke ''_run_pre_scripts'' (run_pre_scripts w),
        if_then uses_host_grub2
          (invoke ''_install_bootloader__grub2'' (install_bootloader__grub2 w)),
        invoke ''_mount_nondisk_chroot_mounts'' (mount_nondisk_chroot_mounts w),
        try_finally
          (run_in_chroot_mounts w)
          (invoke ''_unmount_nondisk_chroot_mounts'' (unmount_nondisk_chroot_mounts w)),
        invoke ''perform_post_chroot_clean_up'' (perform_post_chroot_clean_up w),
        invoke ''_run_post_scripts'' (run_post_scripts w)]"

definition run_with_mountpoint :: "world \<Rightarrow> unit action" where
  "run_with_mountpoint w =
     seq (invoke ''_mount_disk_chroot_mounts'' (mount_disk_chroot_mounts w))
       (try_finally
          (run_in_partition_mount w)
          (invoke ''_unmount_disk_chroot_mounts'' (unmount_disk_chroot_mounts w)))"

definition run_with_partition_device :: "world \<Rightarrow> unit action" where
  "run_with_partition_device w =
     sequence
       [invoke ''_format_partitions'' (format_partitions w),
        if_then_else (\<lambda>s. truthy (first_partition_uuid s))
          (invoke ''_set_first_partition_uuid'' (set_first_partition_uuid w))
          (invoke ''_gather_first_partition_uuid'' (gather_first_partition_uuid w)),
        if_then_else (\<lambda>s. truthy (first_partition_uuid s)) (ret ()) (raise AssertionError),
        invoke ''_mkdir_mountpount'' (mkdir_mountpount w),
        try_finally
          (run_with_mountpoint w)
          (invoke ''_rmdir_mountpount'' (rmdir_mountpount w))]"

definition run :: "world \<Rightarrow> unit action" where
  "run w =
     sequence
       [invoke ''_unshare'' (unshare w),
        invoke ''_partition_device'' (partition_device w),
        invoke ''_set_disk_id_in_mbr'' (set_disk_id_in_mbr w),
        invoke ''_kpartx_minus_a'' (kpartx_minus_a w),
        try_finally
          (run_with_partition_device w)
          (invoke ''_kpartx_minus_d'' (kpartx_minus_d w))]"

section \<open>Example worlds\<close>

text \<open>
  A world in which every command succeeds (the target is a loop device whose node appears
  once \<^verbatim>\<open>kpartx -a\<close> has run), an engine to run in it, and the same world with one
  command failing.
\<close>

definition uuid1 :: string where
  "uuid1 = ''11111111-2222-3333-4444-555555555555''"

definition calm :: world where
  "calm =
     \<lparr>exec_call = (\<lambda>tr cmd env. None),
      exec_output =
        (\<lambda>tr cmd. Inr (if take 1 cmd = [COMMAND_KPARTX]
                        then ''loop0p1 : 0 204800 /dev/loop0 2048'' @ [CHR 0x0A]
                        else uuid1 @ [CHR 0x0A])),
      subprocess_output = (\<lambda>tr cmd. Inr ''grub-install (GRUB) 2.02''),
      popen_wait = (\<lambda>tr cmd d input. Inr 0),
      scribble = (\<lambda>tr d. d),
      path_exists =
        (\<lambda>tr p. list_ex (\<lambda>e. case e of Call c d r \<Rightarrow> take 2 c = [COMMAND_KPARTX, ''-a'']
                                  | _ \<Rightarrow> False) tr),
      libc = (\<lambda>tr c. (0, 0)),
      perform = (\<lambda>tr eff. None),
      answer =
        (\<lambda>tr q. case q of
                   Mkdtemp d \<Rightarrow> Inr (d @ ''/tmpAbCdEf'')
                 | ReadFile p \<Rightarrow> Inr (''nameserver 192.0.2.1'' @ [CHR 0x0A])
                 | Realpath p \<Rightarrow> Inr p
                 | ChrootCommandGrub2Install \<Rightarrow> Inr ''grub-install''),
      entries = (\<lambda>tr q. Inr []),
      normpath = (\<lambda>p. p),
      strerror = (\<lambda>n. ''error''),
      require_valid_uuid =
        (\<lambda>u. if length u = 36 then None else Some (ValueError ''invalid UUID''))\<rparr>"

definition host1 :: engine where
  "host1 =
     \<lparr>hostname = ''host1'', architecture = ''amd64'', root_password = None,
      abs_root_password_file = None, abs_etc_resolv_conf = ''/etc/resolv.conf'',
      disk_id = None, abs_scripts_dir_pre = None, abs_scripts_dir_chroot = None,
      abs_scripts_dir_post = None, abs_target_path = ''/dev/loop0'',
      command_grub2_install = None, bootloader_approach = BOOTLOADER__CHROOT_GRUB2__DRIVE,
      bootloader_force = False, abs_mountpoint = None, abs_first_partition_device = None,
      first_partition_uuid = None,
      heap = (\<lambda>a. [])(0 := [(''PATH'', Some ''/usr/sbin:/usr/bin''), (''LANG'', Some ''C.UTF-8'')]),
      next_ref = 1, trace = []\<rparr>"

definition failing :: "string list \<Rightarrow> nat \<Rightarrow> world" where
  "failing prefix rc =
     calm\<lparr>exec_call :=
            (\<lambda>tr cmd env. if take (length prefix) cmd = prefix
                           then Some (CalledProcessError rc cmd) else None)\<rparr>"

definition listing :: "string list \<Rightarrow> world" where
  "listing names = calm\<lparr>entries := (\<lambda>tr q. Inr names)\<rparr>"

definition host1_mounted :: engine where
  "host1_mounted =
     host1\<lparr>abs_mountpoint := Some ''/mnt/tmpAbCdEf'',
            abs_first_partition_device := Some ''/dev/mapper/loop0p1'',
            first_partition_uuid := Some uuid1,
            abs_scripts_dir_chroot := Some ''/s/chroot''\<rparr>"

definition scribbling :: world where
  "scribbling = (listing [''b'', ''a''])\<lparr>scribble := (\<lambda>tr d. [(''LANG'', Some ''tlh'')])\<rparr>"

text \<open>The executor's call log: the commands of \<^verbatim>\<open>check_call\<close>, in order.\<close>

definition commands :: "event list \<Rightarrow> string list list" where
  "commands tr = concat (map (\<lambda>e. case e of Call c d r \<Rightarrow> [c] | _ \<Rightarrow> []) tr)"

section \<open>The shape of the logs\<close>

text \<open>
  Recognisers for the part of the trace that one method leaves behind, written after the
  specification's description of partition activation. \<open>polled dev n xs r\<close>: \<open>xs\<close> is the
  log of polling the device node at most \<open>n\<close> times, a sleep of one second after each
  miss, with result \<open>r\<close> (the node seen, or \<open>PartitionDeviceMissing\<close> after \<open>n\<close> misses).
  \<open>retried_then cmd n k xs r\<close>: \<open>xs\<close> is the log of at most \<open>n\<close> attempts of \<open>cmd\<close>,
  a sleep of one second after each failed attempt, stopped by the first success or by a
  fatal failure (exit code 127, or an error that is no exit code at all), and followed,
  unless the failure was fatal, by a log that \<open>k\<close> recognises.
\<close>

definition fatal :: "exn \<Rightarrow> bool" where
  "fatal e = (case e of CalledProcessError rc c \<Rightarrow> rc = EXIT_COMMAND_NOT_FOUND | _ \<Rightarrow> True)"

definition PartitionDeviceMissing :: "string \<Rightarrow> exn" where
  "PartitionDeviceMissing dev = OSError ENOENT (''No such block device file: '' @ squoted dev)"

fun polled :: "string \<Rightarrow> nat \<Rightarrow> event list \<Rightarrow> exn + unit \<Rightarrow> bool" where
  "polled dev 0 xs r = (xs = [] \<and> r = Inl (PartitionDeviceMissing dev))"
| "polled dev (Suc n) xs r =
     (case xs of
        Exists p b # rest \<Rightarrow>
          p = dev \<and>
          (if b then rest = [] \<and> r = Inr ()
           else (case rest of
                   Sleep t # rest' \<Rightarrow> t = 1 \<and> polled dev n rest' r
                 | _ \<Rightarrow> False))
      | _ \<Rightarrow> False)"

fun retried_then ::
  "string list \<Rightarrow> nat \<Rightarrow> (event list \<Rightarrow> exn + unit \<Rightarrow> bool) \<Rightarrow> event list \<Rightarrow> exn + unit \<Rightarrow> bool"
where
  "retried_then cmd 0 k xs r = k xs r"
| "retried_then cmd (Suc n) k xs r =
     (case xs of
        Call c d a # rest \<Rightarrow>
          c = cmd \<and> d = None \<and>
          (case a of
             None \<Rightarrow> k rest r
           | Some e \<Rightarrow>
               if fatal e then rest = [] \<and> r = Inl e
               else (case rest of
                       Sleep t # rest' \<Rightarrow> t = 1 \<and> retried_then cmd n k rest' r
                     | _ \<Rightarrow> False))
      | _ \<Rightarrow> False)"

text \<open>
  The first line's token before \<^verbatim>\<open>" : "\<close> in the output of \<^verbatim>\<open>kpartx -l\<close>; then
  the three shapes of the activation log: a loop device (refused when the node exists,
  else \<^verbatim>\<open>kpartx -a\<close> and polling), any other device (a sleep, \<^verbatim>\<open>partprobe\<close> under the
  retry loop, polling), and the whole of \<^verbatim>\<open>_kpartx_minus_a\<close> with the field
  \<^verbatim>\<open>_abs_first_partition_device\<close> before and after.
\<close>

definition kpartx_token :: "string \<Rightarrow> string" where
  "kpartx_token out = before_sep '' : '' (before_sep [CHR 0x0A] out)"

definition loop_activated :: "string \<Rightarrow> string \<Rightarrow> event list \<Rightarrow> exn + unit \<Rightarrow> bool" where
  "loop_activated target dev xs r =
     (case xs of
        Exists p b # ys \<Rightarrow>
          p = dev \<and>
          (if b then ys = [] \<and> r = Inl (OSError EEXIST (''File exists: '' @ squoted dev))
           else (case ys of
                   Call c d a # zs \<Rightarrow>
                     c = [COMMAND_KPARTX, ''-a'', ''-p'', PARTITION_DELIMITER, ''-s'', target] \<and>
                     d = None \<and>
                     (case a of Some e \<Rightarrow> zs = [] \<and> r = Inl e | None \<Rightarrow> polled dev 3 zs r)
                 | _ \<Rightarrow> False))
      | _ \<Rightarrow> False)"

definition disk_activated :: "string \<Rightarrow> string \<Rightarrow> event list \<Rightarrow> exn + unit \<Rightarrow> bool" where
  "disk_activated target dev xs r =
     (case xs of
        Sleep t # ys \<Rightarrow>
          t = 1 \<and> retried_then [COMMAND_PARTPROBE, target] 3 (polled dev 3) ys r
      | _ \<Rightarrow> False)"

definition activation_log ::
  "string \<Rightarrow> event list \<Rightarrow> exn + unit \<Rightarrow> string option \<Rightarrow> string option \<Rightarrow> bool" where
  "activation_log target xs r before after =
     (case xs of
        Info m # Output c res # rest \<Rightarrow>
          c = [COMMAND_KPARTX, ''-l'', ''-p'', PARTITION_DELIMITER, target] \<and>
          (case res of
             Inl e \<Rightarrow> rest = [] \<and> r = Inl e \<and> after = before
           | Inr out \<Rightarrow>
               after = Some (''/dev/mapper/'' @ kpartx_token out) \<and>
               (if startswith (kpartx_token out) ''loop''
                then loop_activated target (''/dev/mapper/'' @ kpartx_token out) rest r
                else disk_activated target (''/dev/mapper/'' @ kpartx_token out) rest r))
      | _ \<Rightarrow> False)"

text \<open>
  The kernel has been told about the partitions once \<^verbatim>\<open>kpartx -a\<close> or \<^verbatim>\<open>partprobe\<close>
  has been run on the target; the node has been observed once \<^verbatim>\<open>os.path.exists\<close> has
  answered yes.
\<close>

definition kernel_told :: "string \<Rightarrow> event list \<Rightarrow> bool" where
  "kernel_told target xs =
     list_ex (\<lambda>c. c = [COMMAND_KPARTX, ''-a'', ''-p'', PARTITION_DELIMITER, ''-s'', target]
                \<or> c = [COMMAND_PARTPROBE, target])
       (commands xs)"

definition node_observed :: "event list \<Rightarrow> bool" where
  "node_observed xs = list_ex (\<lambda>e. case e of Exists p b \<Rightarrow> b | _ \<Rightarrow> False) xs"

definition node_never_appears :: world where
  "node_never_appears = calm\<lparr>path_exists := (\<lambda>tr p. False)\<rparr>"

subsection \<open>The log of the search for grub2-install\<close>









section \<open>Basic facts\<close>

lemmas action_defs =
  ret_def raise_def bindE_def seq_def try_finally_def emit_def info_def sleep_def need_def
  if_then_def if_then_else_def with_self_def

lemmas request_defs =
  check_call_def check_output_def subprocess_check_output_def os_path_exists_def do_effect_def
  do_effect_env_def ask_def list_entries_def call_libc_def popen_def Let_def

lemmas command_defs =
  COMMAND_BLKID_def COMMAND_CHMOD_def COMMAND_CHROOT_def COMMAND_CP_def COMMAND_KPARTX_def
  COMMAND_MKDIR_def COMMAND_MKFS_EXT4_def COMMAND_MOUNT_def COMMAND_PARTED_def
  COMMAND_PARTPROBE_def COMMAND_RM_def COMMAND_RMDIR_def COMMAND_SED_def COMMAND_TUNE2FS_def
  COMMAND_UMOUNT_def PARTITION_DELIMITER_def

lemma check_call_retrying_fatal:
  assumes "exec_call w (trace s) cmd None = Some (CalledProcessError EXIT_COMMAND_NOT_FOUND c)"
  shows "check_call_retrying w cmd (Suc n) s =
           (Inl (CalledProcessError EXIT_COMMAND_NOT_FOUND c),
            s\<lparr>trace := trace s @ [Call cmd None
                                     (Some (CalledProcessError EXIT_COMMAND_NOT_FOUND c))]\<rparr>)"
  using assms by (simp add: check_call_def)

lemma check_call_retrying_again:
  assumes "exec_call w (trace s) cmd None = Some (CalledProcessError rc c)"
    and "rc \<noteq> EXIT_COMMAND_NOT_FOUND"
  shows "check_call_retrying w cmd (Suc n) s =
           check_call_retrying w cmd n
             (s\<lparr>trace := trace s @ [Call cmd None (Some (CalledProcessError rc c)), Sleep 1]\<rparr>)"
  using assms by (simp add: check_call_def sleep_def emit_def)

subsection \<open>The retry loop\<close>

text \<open>
  Claim C2, as the code has it. A command under the retry loop that exits with 127 on its
  first attempt is raised at once: one attempt, no sleep. A command that fails with any
  other exit code on every attempt is attempted exactly three times, each failure followed
  by a sleep of one second (three sleeps), and then the loop ends without raising: the
  method goes on with what follows the loop.
\<close>

theorem retry_policy:
  assumes "\<And>tr. exec_call w tr cmd None = Some (CalledProcessError rc cmd)"
  shows "check_call_retrying w cmd 3 s =
           (if rc = EXIT_COMMAND_NOT_FOUND
            then (Inl (CalledProcessError rc cmd),
                  s\<lparr>trace := trace s @ [Call cmd None (Some (CalledProcessError rc cmd))]\<rparr>)
            else (Inr (),
                  s\<lparr>trace := trace s @
                       [Call cmd None (Some (CalledProcessError rc cmd)), Sleep 1,
                        Call cmd None (Some (CalledProcessError rc cmd)), Sleep 1,
                        Call cmd None (Some (CalledProcessError rc cmd)), Sleep 1]\<rparr>))"
proof (cases "rc = EXIT_COMMAND_NOT_FOUND")
  case True
  then show ?thesis
    using assms by (simp add: numeral_3_eq_3 check_call_retrying_fatal del: check_call_retrying.simps(2))
next
  case False
  then show ?thesis
    using assms by (simp add: numeral_3_eq_3 check_call_retrying_again del: check_call_retrying.simps(2))
qed

theorem retry_policy_witness:
  "try_unmounting (failing [COMMAND_UMOUNT] 1) ''/mnt/x'' host1 =
     (Inr (),
      host1\<lparr>trace :=
        [Call [COMMAND_UMOUNT, ''/mnt/x''] None
           (Some (CalledProcessError 1 [COMMAND_UMOUNT, ''/mnt/x''])), Sleep 1,
         Call [COMMAND_UMOUNT, ''/mnt/x''] None
           (Some (CalledProcessError 1 [COMMAND_UMOUNT, ''/mnt/x''])), Sleep 1,
         Call [COMMAND_UMOUNT, ''/mnt/x''] None
           (Some (CalledProcessError 1 [COMMAND_UMOUNT, ''/mnt/x''])), Sleep 1]\<rparr>)
   \<and> fst (kpartx_minus_d (failing [COMMAND_KPARTX, ''-d''] 127) host1) =
       Inl (CalledProcessError 127 [COMMAND_KPARTX, ''-d'', ''-p'', ''p'', ''/dev/loop0''])"
proof -
  have u: "\<And>tr. exec_call (failing [COMMAND_UMOUNT] 1) tr [COMMAND_UMOUNT, ''/mnt/x''] None =
             Some (CalledProcessError 1 [COMMAND_UMOUNT, ''/mnt/x''])"
    by (simp add: failing_def calm_def)
  have k: "\<And>tr. exec_call (failing [COMMAND_KPARTX, ''-d''] 127) tr
               [COMMAND_KPARTX, ''-d'', ''-p'', ''p'', ''/dev/loop0''] None =
             Some (CalledProcessError 127 [COMMAND_KPARTX, ''-d'', ''-p'', ''p'', ''/dev/loop0''])"
    by (simp add: failing_def calm_def)
  show ?thesis
    using retry_policy [OF u, of host1]
      retry_policy [OF k, of "host1\<lparr>trace := [Info ''Deactivating partition devices...'']\<rparr>"]
    by (simp add: try_unmounting_def kpartx_minus_d_def host1_def EXIT_COMMAND_NOT_FOUND_def
        PARTITION_DELIMITER_def action_defs del: check_call_retrying.simps)
qed

text \<open>
  Setting the boot flag fails with exit code 1 on all three attempts; \<^verbatim>\<open>_partition_device\<close>
  returns normally, so nothing aborts.
\<close>

theorem boot_flag_failure_goes_on:
  "fst (partition_device (failing [COMMAND_PARTED, ''--script'', ''/dev/loop0'', ''set''] 1) host1)
     = Inr ()
   \<and> [e \<leftarrow> trace (snd (partition_device
            (failing [COMMAND_PARTED, ''--script'', ''/dev/loop0'', ''set''] 1) host1)).
        case e of Call c d r \<Rightarrow> r \<noteq> None | Sleep n \<Rightarrow> True | _ \<Rightarrow> False] =
      [Sleep 1,
       Call [''parted'', ''--script'', ''/dev/loop0'', ''set'', ''1'', ''boot'', ''on''] None
         (Some (CalledProcessError 1
            [''parted'', ''--script'', ''/dev/loop0'', ''set'', ''1'', ''boot'', ''on''])),
       Sleep 1,
       Call [''parted'', ''--script'', ''/dev/loop0'', ''set'', ''1'', ''boot'', ''on''] None
         (Some (CalledProcessError 1
            [''parted'', ''--script'', ''/dev/loop0'', ''set'', ''1'', ''boot'', ''on''])),
       Sleep 1,
       Call [''parted'', ''--script'', ''/dev/loop0'', ''set'', ''1'', ''boot'', ''on''] None
         (Some (CalledProcessError 1
            [''parted'', ''--script'', ''/dev/loop0'', ''set'', ''1'', ''boot'', ''on''])),
       Sleep 1]"
  by (simp add: partition_device_def failing_def calm_def host1_def numeral_3_eq_3
      EXIT_COMMAND_NOT_FOUND_def command_defs action_defs check_call_def)

subsection \<open>Script order\<close>

lemma sort_example: "sort [''d'', ''c~'', ''b'', ''.hidden'', ''a''] = [''.hidden'', ''a'', ''b'', ''c~'', ''d'']"
  by code_simp

text \<open>
  Claim C3 at a directory that \<^verbatim>\<open>os.listdir\<close> lists as
  \<^verbatim>\<open>d, c~, b, .hidden, a\<close>. \<^verbatim>\<open>_run_chroot_scripts\<close> iterates over the listing as
  it comes and runs \<^verbatim>\<open>d, b, a\<close>; \<^verbatim>\<open>_run_scripts_from\<close>, the loop of the pre-chroot and
  post-chroot phases, sorts the same listing and runs \<^verbatim>\<open>a, b, d\<close>.
\<close>

theorem chroot_scripts_run_in_listing_order:
  "commands (trace (snd (run_chroot_scripts (listing [''d'', ''c~'', ''b'', ''.hidden'', ''a''])
                           host1_mounted))) =
     [[''chroot'', ''/mnt/tmpAbCdEf'', ''/root/chroot-scripts/d''],
      [''chroot'', ''/mnt/tmpAbCdEf'', ''/root/chroot-scripts/b''],
      [''chroot'', ''/mnt/tmpAbCdEf'', ''/root/chroot-scripts/a'']]
   \<and> commands (trace (snd (run_scripts_from (listing [''d'', ''c~'', ''b'', ''.hidden'', ''a''])
                              ''/s/pre'' ENVIRON host1_mounted))) =
     [[''/s/pre/a''], [''/s/pre/b''], [''/s/pre/d'']]"
  by (simp add: run_chroot_scripts_def run_scripts_from_def make_environment_def listing_def
      calm_def host1_mounted_def host1_def commands_def action_defs request_defs command_defs
      dict_copy_def dict_pop_def dict_update_def script_should_be_run_def startswith_def
      endswith_def path_join_def CHROOT_SCRIPT_TARGET_DIR_def ENVIRON_def sort_example Let_def)

subsection \<open>Environments\<close>

lemma map_of_dict_set: "map_of (dict_set k v d) = (map_of d)(k \<mapsto> v)"
  by (induction d) auto

lemma map_of_dict_pop: "map_of (filter (\<lambda>kv. fst kv \<noteq> k) d) = (map_of d)(k := None)"
  by (induction d) auto

lemma make_environment_result:
  "make_environment tell s =
     (Inr (next_ref s),
      s\<lparr>heap := (heap s)(next_ref s :=
           (if tell then fold (\<lambda>kv d. dict_set (fst kv) (snd kv) d)
                           [(''IB_ROOT'', abs_mountpoint s), (''MNTPOINT'', abs_mountpoint s)]
            else (\<lambda>d. d))
             (fold (\<lambda>kv d. dict_set (fst kv) (snd kv) d)
                [(''HOSTNAME'', Some (hostname s)), (''IB_HOSTNAME'', Some (hostname s)),
                 (''LC_ALL'', Some ''C'')]
                (filter (\<lambda>kv. fst kv \<noteq> ''LANGUAGE'')
                   (filter (\<lambda>kv. fst kv \<noteq> ''LANG'') (heap s ENVIRON))))),
         next_ref := Suc (next_ref s)\<rparr>)"
  by (simp add: make_environment_def action_defs dict_copy_def dict_pop_def dict_update_def)

lemma scripts_loop:
  assumes "env < next_ref s"
  shows "case sequence (map (\<lambda>b. bindE (dict_copy env) (\<lambda>c. check_call w (cmd b) (Some c))) names) s of
           (r, s') \<Rightarrow>
             next_ref s \<le> next_ref s' \<and> (\<forall>a < next_ref s. heap s' a = heap s a) \<and>
             (\<exists>xs. trace s' = trace s @ xs \<and>
                   list_all (\<lambda>e. case e of Call c d r \<Rightarrow> d = Some (heap s env) | _ \<Rightarrow> True) xs)"
  using assms
proof (induction names arbitrary: s)
  case Nil
  then show ?case by (simp add: ret_def)
next
  case (Cons b names)
  define s1 where "s1 = snd (bindE (dict_copy env) (\<lambda>c. check_call w (cmd b) (Some c)) s)"
  define r1 where "r1 = fst (bindE (dict_copy env) (\<lambda>c. check_call w (cmd b) (Some c)) s)"
  have step: "bindE (dict_copy env) (\<lambda>c. check_call w (cmd b) (Some c)) s = (r1, s1)"
    by (simp add: s1_def r1_def)
  have s1: "next_ref s1 = Suc (next_ref s)" "\<forall>a < next_ref s. heap s1 a = heap s a"
    "trace s1 = trace s @ [Call (cmd b) (Some (heap s env)) (exec_call w (trace s) (cmd b) (Some (heap s env)))]"
    using Cons.prems
    by (auto simp: s1_def bindE_def dict_copy_def check_call_def Let_def split: option.splits)
  show ?case
  proof (cases r1)
    case (Inl e)
    then show ?thesis using step s1 by (simp add: seq_def bindE_def)
  next
    case (Inr u)
    have lt: "env < next_ref s1" using Cons.prems s1 by simp
    have same: "heap s1 env = heap s env" using Cons.prems s1 by simp
    have rest: "sequence (map (\<lambda>b. bindE (dict_copy env) (\<lambda>c. check_call w (cmd b) (Some c)))
                   (b # names)) s =
                sequence (map (\<lambda>b. bindE (dict_copy env) (\<lambda>c. check_call w (cmd b) (Some c)))
                   names) s1"
      using step Inr by (simp add: seq_def bindE_def [of "bindE _ _"])
    from Cons.IH [OF lt] show ?thesis
      unfolding rest same using s1
      by (auto split: prod.splits)
  qed
qed

text \<open>
  Claim C10. \<^verbatim>\<open>make_environment\<close> returns a reference to a new dictionary and leaves
  every dictionary that existed before, \<^verbatim>\<open>os.environ\<close> among them, as it was; the new
  dictionary is \<^verbatim>\<open>os.environ\<close> without \<^verbatim>\<open>LANG\<close> and \<^verbatim>\<open>LANGUAGE\<close>, with
  \<^verbatim>\<open>HOSTNAME\<close>, \<^verbatim>\<open>IB_HOSTNAME\<close> and \<^verbatim>\<open>LC_ALL\<close> set, and with \<^verbatim>\<open>IB_ROOT\<close> and
  \<^verbatim>\<open>MNTPOINT\<close> set only when the mountpoint is told. \<^verbatim>\<open>_run_scripts_from\<close> hands every
  script a copy of its own: whatever a callee leaves in the dictionary it was handed,
  every dictionary that existed before the phase (\<^verbatim>\<open>os.environ\<close> and the phase's
  environment among them) is unchanged after it, and every script of the phase is called
  with the content the environment had when the phase began.
\<close>

theorem environments_are_copies:
  assumes "ENVIRON < next_ref s" and "env < next_ref s"
  shows "(case make_environment tell s of
            (r, s') \<Rightarrow>
              r = Inr (next_ref s) \<and> trace s' = trace s \<and>
              (\<forall>a. a \<noteq> next_ref s \<longrightarrow> heap s' a = heap s a) \<and>
              map_of (heap s' (next_ref s)) =
                (if tell
                 then (map_of (heap s ENVIRON))
                        (''LANG'' := None, ''LANGUAGE'' := None,
                         ''HOSTNAME'' \<mapsto> Some (hostname s),
                         ''IB_HOSTNAME'' \<mapsto> Some (hostname s), ''LC_ALL'' \<mapsto> Some ''C'',
                         ''IB_ROOT'' \<mapsto> abs_mountpoint s, ''MNTPOINT'' \<mapsto> abs_mountpoint s)
                 else (map_of (heap s ENVIRON))
                        (''LANG'' := None, ''LANGUAGE'' := None,
                         ''HOSTNAME'' \<mapsto> Some (hostname s),
                         ''IB_HOSTNAME'' \<mapsto> Some (hostname s), ''LC_ALL'' \<mapsto> Some ''C'')))
       \<and> (case run_scripts_from w abs_scripts_dir env s of
            (r, s') \<Rightarrow>
              (\<forall>a < next_ref s. heap s' a = heap s a) \<and>
              (\<exists>xs. trace s' = trace s @ xs \<and>
                    list_all (\<lambda>e. case e of Call c d r \<Rightarrow> d = Some (heap s env) | _ \<Rightarrow> True)
                      xs))"
proof (intro conjI)
  show "case make_environment tell s of
            (r, s') \<Rightarrow>
              r = Inr (next_ref s) \<and> trace s' = trace s \<and>
              (\<forall>a. a \<noteq> next_ref s \<longrightarrow> heap s' a = heap s a) \<and>
              map_of (heap s' (next_ref s)) =
                (if tell
                 then (map_of (heap s ENVIRON))
                        (''LANG'' := None, ''LANGUAGE'' := None,
                         ''HOSTNAME'' \<mapsto> Some (hostname s),
                         ''IB_HOSTNAME'' \<mapsto> Some (hostname s), ''LC_ALL'' \<mapsto> Some ''C'',
                         ''IB_ROOT'' \<mapsto> abs_mountpoint s, ''MNTPOINT'' \<mapsto> abs_mountpoint s)
                 else (map_of (heap s ENVIRON))
                        (''LANG'' := None, ''LANGUAGE'' := None,
                         ''HOSTNAME'' \<mapsto> Some (hostname s),
                         ''IB_HOSTNAME'' \<mapsto> Some (hostname s), ''LC_ALL'' \<mapsto> Some ''C''))"
    by (simp add: make_environment_result map_of_dict_set map_of_dict_pop del: filter_filter)
next
  let ?loop = "\<lambda>names. sequence (map (\<lambda>b. bindE (dict_copy env)
                   (\<lambda>c. check_call w [path_join abs_scripts_dir b] (Some c))) names)"
  show "case run_scripts_from w abs_scripts_dir env s of
            (r, s') \<Rightarrow>
              (\<forall>a < next_ref s. heap s' a = heap s a) \<and>
              (\<exists>xs. trace s' = trace s @ xs \<and>
                    list_all (\<lambda>e. case e of Call c d r \<Rightarrow> d = Some (heap s env) | _ \<Rightarrow> True)
                      xs)"
  proof (cases "entries w (trace s) (Listdir abs_scripts_dir)")
    case (Inl e)
    then show ?thesis
      by (simp add: run_scripts_from_def bindE_def list_entries_def Let_def)
  next
    case (Inr names)
    define s0 where "s0 = s\<lparr>trace := trace s @ [Listed (Listdir abs_scripts_dir) (Inr names)]\<rparr>"
    have run: "run_scripts_from w abs_scripts_dir env s =
                 ?loop (filter script_should_be_run (sort names)) s0"
      using Inr by (simp add: run_scripts_from_def bindE_def list_entries_def s0_def Let_def)
    have lt: "env < next_ref s0" using assms by (simp add: s0_def)
    have same: "heap s0 = heap s" "next_ref s0 = next_ref s"
      "trace s0 = trace s @ [Listed (Listdir abs_scripts_dir) (Inr names)]"
      by (simp_all add: s0_def)
    from scripts_loop [OF lt, of w "\<lambda>b. [path_join abs_scripts_dir b]"
        "filter script_should_be_run (sort names)"]
    show ?thesis
      unfolding run same
      by (auto split: prod.splits)
  qed
qed

theorem environments_are_copies_witness:
  "heap (snd (run_scripts_from scribbling ''/s/pre'' ENVIRON host1_mounted)) ENVIRON =
     [(''PATH'', Some ''/usr/sbin:/usr/bin''), (''LANG'', Some ''C.UTF-8'')]
   \<and> fst (make_environment True host1_mounted) = Inr 1
   \<and> heap (snd (make_environment True host1_mounted)) ENVIRON =
       [(''PATH'', Some ''/usr/sbin:/usr/bin''), (''LANG'', Some ''C.UTF-8'')]"
proof -
  have e: "ENVIRON < next_ref host1_mounted"
    by (simp add: host1_mounted_def host1_def ENVIRON_def)
  show ?thesis
    using environments_are_copies [OF e e, of True scribbling "''/s/pre''"]
    by (auto simp: host1_mounted_def host1_def ENVIRON_def split: prod.splits)
qed

lemma case_result_id [simp]:
  "(case p of (Inl e, s') \<Rightarrow> (Inl e, s') | (Inr x, s') \<Rightarrow> (Inr x, s')) = p"
  "(case p of (Inl e, s') \<Rightarrow> (Inl e, s') | (Inr x, s') \<Rightarrow> ret x s') = p"
  by (auto simp: ret_def split: prod.splits sum.splits)

lemma commands_simps [simp]:
  "commands [] = []"
  "commands (Call c d r # xs) = c # commands xs"
  "commands (Exists p b # xs) = commands xs"
  "commands (Sleep t # xs) = commands xs"
  "commands (Info m # xs) = commands xs"
  "commands (Output c o' # xs) = commands xs"
  "commands (xs @ ys) = commands xs @ commands ys"
  by (simp_all add: commands_def)

lemma check_call_retrying_log:
  "\<exists>xs abort.
     check_call_retrying w cmd n s =
       ((case abort of None \<Rightarrow> Inr () | Some e \<Rightarrow> Inl e), s\<lparr>trace := trace s @ xs\<rparr>)
     \<and> (\<forall>k zs r. (case abort of None \<Rightarrow> k zs r | Some e \<Rightarrow> zs = [] \<and> r = Inl e)
                 \<longrightarrow> retried_then cmd n k (xs @ zs) r)"
proof (induction n arbitrary: s)
  case 0
  show ?case by (rule exI [of _ "[]"], rule exI [of _ None]) simp
next
  case (Suc n)
  let ?r = "exec_call w (trace s) cmd None"
  let ?s1 = "s\<lparr>trace := trace s @ [Call cmd None ?r]\<rparr>"
  have call: "check_call w cmd None s = ((case ?r of None \<Rightarrow> Inr () | Some e \<Rightarrow> Inl e), ?s1)"
    by (simp add: check_call_def Let_def split: option.splits)
  show ?case
  proof (cases ?r)
    case None
    show ?thesis
      by (rule exI [of _ "[Call cmd None None]"], rule exI [of _ None])
        (simp add: call None)
  next
    case (Some e)
    show ?thesis
    proof (cases "fatal e")
      case True
      show ?thesis
        by (rule exI [of _ "[Call cmd None (Some e)]"], rule exI [of _ "Some e"])
          (use True Some in \<open>auto simp: call fatal_def split: exn.splits\<close>)
    next
      case False
      then obtain rc c where e: "e = CalledProcessError rc c" "rc \<noteq> EXIT_COMMAND_NOT_FOUND"
        by (auto simp: fatal_def split: exn.splits)
      let ?s2 = "s\<lparr>trace := trace s @ [Call cmd None (Some e), Sleep 1]\<rparr>"
      from Suc [of ?s2] obtain ys abort where
        ys: "check_call_retrying w cmd n ?s2 =
               ((case abort of None \<Rightarrow> Inr () | Some e \<Rightarrow> Inl e), ?s2\<lparr>trace := trace ?s2 @ ys\<rparr>)"
          "\<forall>k zs r. (case abort of None \<Rightarrow> k zs r | Some e \<Rightarrow> zs = [] \<and> r = Inl e)
                 \<longrightarrow> retried_then cmd n k (ys @ zs) r"
        by blast
      have "check_call_retrying w cmd (Suc n) s = check_call_retrying w cmd n ?s2"
        using Some e by (simp add: call sleep_def emit_def)
      then show ?thesis
        using ys False Some
        by (intro exI [of _ "Call cmd None (Some e) # Sleep 1 # ys"] exI [of _ abort]) simp
    qed
  qed
qed

lemma poll_exists_log:
  "\<exists>xs r. poll_exists w dev n s = (r, s\<lparr>trace := trace s @ xs\<rparr>) \<and> polled dev n xs r"
proof (induction n arbitrary: s)
  case 0
  show ?case
    by (rule exI [of _ "[]"], rule exI [of _ "Inl (PartitionDeviceMissing dev)"])
      (simp add: raise_def PartitionDeviceMissing_def)
next
  case (Suc n)
  show ?case
  proof (cases "path_exists w (trace s) dev")
    case True
    show ?thesis
      by (rule exI [of _ "[Exists dev True]"], rule exI [of _ "Inr ()"])
        (simp add: True bindE_def os_path_exists_def ret_def Let_def)
  next
    case False
    let ?s2 = "s\<lparr>trace := trace s @ [Exists dev False, Sleep 1]\<rparr>"
    from Suc [of ?s2] obtain ys r where
      ys: "poll_exists w dev n ?s2 = (r, ?s2\<lparr>trace := trace ?s2 @ ys\<rparr>)" "polled dev n ys r"
      by blast
    have "poll_exists w dev (Suc n) s = poll_exists w dev n ?s2"
      using False by (simp add: bindE_def os_path_exists_def seq_def sleep_def emit_def Let_def)
    then show ?thesis
      using ys
      by (intro exI [of _ "Exists dev False # Sleep 1 # ys"] exI [of _ r]) simp
  qed
qed

lemma kpartx_minus_a_log:
  "\<exists>xs. trace (snd (kpartx_minus_a w s)) = trace s @ xs \<and>
        activation_log (abs_target_path s) xs (fst (kpartx_minus_a w s))
          (abs_first_partition_device s) (abs_first_partition_device (snd (kpartx_minus_a w s)))"
proof -
  let ?cmd = "[COMMAND_KPARTX, ''-l'', ''-p'', PARTITION_DELIMITER, abs_target_path s]"
  let ?info = "Info ''Activating partition devices...''"
  let ?res = "exec_output w (trace s @ [?info]) ?cmd"
  let ?s1 = "s\<lparr>trace := trace s @ [?info, Output ?cmd ?res]\<rparr>"
  show ?thesis
  proof (cases ?res)
    case (Inl e)
    then show ?thesis
      by (intro exI [of _ "[?info, Output ?cmd ?res]"])
        (simp add: kpartx_minus_a_def action_defs check_output_def Let_def activation_log_def)
  next
    case (Inr out)
    let ?dev = "''/dev/mapper/'' @ kpartx_token out"
    let ?s2 = "?s1\<lparr>abs_first_partition_device := Some ?dev\<rparr>"
    show ?thesis
    proof (cases "startswith (kpartx_token out) ''loop''")
      case True
      let ?b = "path_exists w (trace ?s2) ?dev"
      let ?s3 = "?s2\<lparr>trace := trace ?s2 @ [Exists ?dev ?b]\<rparr>"
      show ?thesis
      proof (cases ?b)
        case exists: True
        have "kpartx_minus_a w s =
                (Inl (OSError EEXIST (''File exists: '' @ squoted ?dev)), ?s3)"
          using Inr True exists
          by (simp add: kpartx_minus_a_def action_defs check_output_def Let_def kpartx_token_def
              set_first_partition_device_def os_path_exists_def)
        then show ?thesis
          using Inr True exists
          by (intro exI [of _ "[?info, Output ?cmd ?res, Exists ?dev True]"])
            (simp add: activation_log_def loop_activated_def)
      next
        case absent: False
        let ?add = "[COMMAND_KPARTX, ''-a'', ''-p'', PARTITION_DELIMITER, ''-s'', abs_target_path s]"
        let ?a = "exec_call w (trace ?s3) ?add None"
        let ?s4 = "?s3\<lparr>trace := trace ?s3 @ [Call ?add None ?a]\<rparr>"
        show ?thesis
        proof (cases ?a)
          case (Some e)
          have "kpartx_minus_a w s = (Inl e, ?s4)"
            using Inr True absent Some
            by (simp add: kpartx_minus_a_def action_defs check_output_def Let_def kpartx_token_def
                set_first_partition_device_def os_path_exists_def check_call_def)
          then show ?thesis
            using Inr True absent Some
            by (intro exI [of _ "[?info, Output ?cmd ?res, Exists ?dev False,
                                   Call ?add None (Some e)]"])
              (simp add: activation_log_def loop_activated_def)
        next
          case None
          from poll_exists_log [of w ?dev 3 ?s4] obtain zs r where
            zs: "poll_exists w ?dev 3 ?s4 = (r, ?s4\<lparr>trace := trace ?s4 @ zs\<rparr>)"
              "polled ?dev 3 zs r"
            by blast
          have "kpartx_minus_a w s = poll_exists w ?dev 3 ?s4"
            using Inr True absent None
            by (simp add: kpartx_minus_a_def action_defs check_output_def Let_def kpartx_token_def
                set_first_partition_device_def os_path_exists_def check_call_def
                del: poll_exists.simps)
          then have "kpartx_minus_a w s = (r, ?s4\<lparr>trace := trace ?s4 @ zs\<rparr>)"
            using zs(1) by simp
          then show ?thesis
            using Inr True absent None zs(2)
            by (intro exI [of _ "[?info, Output ?cmd ?res, Exists ?dev False, Call ?add None None]
                                  @ zs"])
              (simp add: activation_log_def loop_activated_def del: polled.simps)
        qed
      qed
    next
      case False
      let ?probe = "[COMMAND_PARTPROBE, abs_target_path s]"
      let ?s3 = "?s2\<lparr>trace := trace ?s2 @ [Sleep 1]\<rparr>"
      from check_call_retrying_log [of w ?probe 3 ?s3] obtain ys abort where
        ys: "check_call_retrying w ?probe 3 ?s3 =
               ((case abort of None \<Rightarrow> Inr () | Some e \<Rightarrow> Inl e), ?s3\<lparr>trace := trace ?s3 @ ys\<rparr>)"
          "\<And>k zs r. (case abort of None \<Rightarrow> k zs r | Some e \<Rightarrow> zs = [] \<and> r = Inl e)
                 \<Longrightarrow> retried_then ?probe 3 k (ys @ zs) r"
        by blast
      let ?s4 = "?s3\<lparr>trace := trace ?s3 @ ys\<rparr>"
      show ?thesis
      proof (cases abort)
        case (Some e)
        have eq: "kpartx_minus_a w s = (Inl e, ?s4)"
          using Inr False Some ys(1)
          by (simp add: kpartx_minus_a_def action_defs check_output_def Let_def kpartx_token_def
              set_first_partition_device_def del: check_call_retrying.simps)
        have "retried_then ?probe 3 (polled ?dev 3) (ys @ []) (Inl e)"
          by (rule ys(2)) (simp add: Some)
        then show ?thesis
          using Inr False
          by (intro exI [of _ "[?info, Output ?cmd ?res, Sleep 1] @ ys"])
            (simp add: eq activation_log_def disk_activated_def
              del: retried_then.simps polled.simps)
      next
        case None
        from poll_exists_log [of w ?dev 3 ?s4] obtain zs r where
          zs: "poll_exists w ?dev 3 ?s4 = (r, ?s4\<lparr>trace := trace ?s4 @ zs\<rparr>)"
            "polled ?dev 3 zs r"
          by blast
        have "kpartx_minus_a w s = poll_exists w ?dev 3 ?s4"
          using Inr False None ys(1)
          by (simp add: kpartx_minus_a_def action_defs check_output_def Let_def kpartx_token_def
              set_first_partition_device_def del: check_call_retrying.simps poll_exists.simps)
        then have eq: "kpartx_minus_a w s = (r, ?s4\<lparr>trace := trace ?s4 @ zs\<rparr>)"
          using zs(1) by simp
        have "retried_then ?probe 3 (polled ?dev 3) (ys @ zs) r"
        proof (rule ys(2))
          show "case abort of None \<Rightarrow> polled ?dev 3 zs r | Some e \<Rightarrow> zs = [] \<and> r = Inl e"
            using None zs(2) by (simp del: polled.simps)
        qed
        then show ?thesis
          using Inr False
          by (intro exI [of _ "[?info, Output ?cmd ?res, Sleep 1] @ ys @ zs"])
            (simp add: eq activation_log_def disk_activated_def
              del: retried_then.simps polled.simps)
      qed
    qed
  qed
qed


subsection \<open>Partition activation\<close>

text \<open>
  Claim C6. Whatever the world answers, the log of \<^verbatim>\<open>_kpartx_minus_a\<close> is an activation
  log: \<^verbatim>\<open>kpartx -l -p p target\<close> first; the first partition device is
  \<^verbatim>\<open>/dev/mapper/\<close> followed by the first line's token before \<^verbatim>\<open>" : "\<close>; for a token
  that begins with \<^verbatim>\<open>loop\<close> a file-exists error when the node is already there, else
  \<^verbatim>\<open>kpartx -a -p p -s target\<close> and no \<^verbatim>\<open>partprobe\<close>; for any other token a sleep and
  \<^verbatim>\<open>partprobe target\<close> under the retry loop; in both branches the node is then polled
  up to three times with a sleep of one second after each miss, and the method raises
  \<open>PartitionDeviceMissing\<close> when the third poll misses too.
\<close>

theorem partition_activation:
  "\<exists>xs. trace (snd (kpartx_minus_a w s)) = trace s @ xs \<and>
        activation_log (abs_target_path s) xs (fst (kpartx_minus_a w s))
          (abs_first_partition_device s) (abs_first_partition_device (snd (kpartx_minus_a w s)))"
  by (rule kpartx_minus_a_log)

lemmas run_defs =
  run_def run_with_partition_device_def run_with_mountpoint_def run_in_partition_mount_def
  run_in_chroot_mounts_def invoke_def

theorem partition_activation_witness:
  "trace (snd (kpartx_minus_a calm host1)) =
     [Info ''Activating partition devices...'',
      Output [''kpartx'', ''-l'', ''-p'', ''p'', ''/dev/loop0'']
        (Inr (''loop0p1 : 0 204800 /dev/loop0 2048'' @ [CHR 0x0A])),
      Exists ''/dev/mapper/loop0p1'' False,
      Call [''kpartx'', ''-a'', ''-p'', ''p'', ''-s'', ''/dev/loop0''] None None,
      Exists ''/dev/mapper/loop0p1'' True]
   \<and> fst (kpartx_minus_a calm host1) = Inr ()
   \<and> abs_first_partition_device (snd (kpartx_minus_a calm host1)) = Some ''/dev/mapper/loop0p1''"
  using partition_activation [of calm host1]
  by (simp add: kpartx_minus_a_def calm_def host1_def action_defs request_defs command_defs
      set_first_partition_device_def startswith_def numeral_3_eq_3)

lemma node_observed_simps [simp]:
  "node_observed [] = False"
  "node_observed (Exists p b # xs) = (b \<or> node_observed xs)"
  "node_observed (Call c d r # xs) = node_observed xs"
  "node_observed (Sleep t # xs) = node_observed xs"
  "node_observed (Info m # xs) = node_observed xs"
  "node_observed (Output c o' # xs) = node_observed xs"
  by (simp_all add: node_observed_def)

lemma polled_ok:
  "polled dev n zs (Inr ()) \<Longrightarrow> zs \<noteq> [] \<and> last zs = Exists dev True \<and> node_observed zs"
  by (induction n arbitrary: zs) (auto split: list.splits event.splits if_splits)

lemma retried_then_ok:
  assumes "retried_then cmd n k ys (Inr ())"
    and "\<And>zs. k zs (Inr ()) \<Longrightarrow> zs \<noteq> [] \<and> last zs = e \<and> node_observed zs"
  shows "ys \<noteq> [] \<and> last ys = e \<and> node_observed ys"
  using assms(1)
proof (induction n arbitrary: ys)
  case 0
  then show ?case using assms(2) [of ys] by simp
next
  case (Suc n)
  from Suc.prems obtain a rest where ys: "ys = Call cmd None a # rest"
    by (auto split: list.splits event.splits)
  show ?case
  proof (cases a)
    case None
    with Suc.prems ys have "k rest (Inr ())" by simp
    from assms(2) [OF this] show ?thesis by (simp add: ys)
  next
    case (Some err)
    with Suc.prems ys obtain rest' where
      rest: "rest = Sleep 1 # rest'" "retried_then cmd n k rest' (Inr ())"
      by (auto split: list.splits event.splits if_splits)
    from Suc.IH [OF rest(2)] show ?thesis by (simp add: ys rest(1))
  qed
qed

lemma retried_then_first:
  "retried_then cmd (Suc n) k ys r \<Longrightarrow> cmd \<in> set (commands ys)"
  by (auto split: list.splits event.splits)

lemma activation_log_observed:
  assumes "activation_log target xs r before after" and "node_observed xs"
  shows "after \<noteq> None"
  using assms
  by (auto simp: activation_log_def split: list.splits event.splits sum.splits)

lemma activation_log_ok:
  assumes "activation_log target xs (Inr ()) before after"
  shows "kernel_told target xs \<and> node_observed xs \<and>
         (\<exists>dev. after = Some dev \<and> dev \<noteq> [] \<and> last xs = Exists dev True)"
proof -
  from assms obtain m out rest where
    xs: "xs = Info m # Output [COMMAND_KPARTX, ''-l'', ''-p'', PARTITION_DELIMITER, target]
                        (Inr out) # rest"
    and after: "after = Some (''/dev/mapper/'' @ kpartx_token out)"
    and rest: "if startswith (kpartx_token out) ''loop''
               then loop_activated target (''/dev/mapper/'' @ kpartx_token out) rest (Inr ())
               else disk_activated target (''/dev/mapper/'' @ kpartx_token out) rest (Inr ())"
    by (auto simp: activation_log_def split: list.splits event.splits sum.splits)
  let ?dev = "''/dev/mapper/'' @ kpartx_token out"
  have "kernel_told target rest \<and> rest \<noteq> [] \<and> last rest = Exists ?dev True \<and> node_observed rest"
  proof (cases "startswith (kpartx_token out) ''loop''")
    case True
    with rest obtain zs where
      zs: "rest = Exists ?dev False
                  # Call [COMMAND_KPARTX, ''-a'', ''-p'', PARTITION_DELIMITER, ''-s'', target]
                      None None # zs"
        "polled ?dev 3 zs (Inr ())"
      by (auto simp: loop_activated_def simp del: polled.simps
          split: list.splits event.splits if_splits option.splits)
    from polled_ok [OF zs(2)] show ?thesis
      by (simp add: zs(1) kernel_told_def)
  next
    case False
    with rest obtain ys where
      ys: "rest = Sleep 1 # ys"
        "retried_then [COMMAND_PARTPROBE, target] 3 (polled ?dev 3) ys (Inr ())"
      by (auto simp: disk_activated_def simp del: polled.simps retried_then.simps
          split: list.splits event.splits)
    have "ys \<noteq> [] \<and> last ys = Exists ?dev True \<and> node_observed ys"
      using ys(2) polled_ok by (rule retried_then_ok)
    moreover have "[COMMAND_PARTPROBE, target] \<in> set (commands ys)"
      using ys(2) by (simp only: numeral_3_eq_3) (rule retried_then_first)
    ultimately show ?thesis
      by (auto simp: ys(1) kernel_told_def list_ex_iff)
  qed
  then show ?thesis
    by (auto simp: xs after kernel_told_def)
qed

text \<open>
  Claim C7, as the code has it. The field is assigned as soon as the output of
  \<^verbatim>\<open>kpartx -l\<close> has been parsed, before the kernel is told and before the node is looked
  for, and \<^verbatim>\<open>_kpartx_minus_a\<close> never clears it. So only one direction holds: when the
  kernel has been told and the node has been observed, the field is set; and when
  \<^verbatim>\<open>_kpartx_minus_a\<close> returns normally, the kernel has been told, the field holds a
  non-empty path and the last thing observed is that this node exists.
\<close>

theorem first_partition_device_set_before_observed:
  "\<exists>xs. trace (snd (kpartx_minus_a w s)) = trace s @ xs \<and>
        (kernel_told (abs_target_path s) xs \<and> node_observed xs \<longrightarrow>
           abs_first_partition_device (snd (kpartx_minus_a w s)) \<noteq> None) \<and>
        (fst (kpartx_minus_a w s) = Inr () \<longrightarrow>
           kernel_told (abs_target_path s) xs \<and> node_observed xs \<and>
           (\<exists>dev. abs_first_partition_device (snd (kpartx_minus_a w s)) = Some dev \<and>
                  dev \<noteq> [] \<and> last xs = Exists dev True))"
proof -
  from kpartx_minus_a_log [of w s] obtain xs where
    xs: "trace (snd (kpartx_minus_a w s)) = trace s @ xs"
      "activation_log (abs_target_path s) xs (fst (kpartx_minus_a w s))
         (abs_first_partition_device s) (abs_first_partition_device (snd (kpartx_minus_a w s)))"
    by blast
  show ?thesis
  proof (intro exI [of _ xs] conjI impI)
    show "trace (snd (kpartx_minus_a w s)) = trace s @ xs" by (rule xs(1))
  next
    assume "kernel_told (abs_target_path s) xs \<and> node_observed xs"
    then show "abs_first_partition_device (snd (kpartx_minus_a w s)) \<noteq> None"
      using activation_log_observed [OF xs(2)] by simp
  next
    assume ok: "fst (kpartx_minus_a w s) = Inr ()"
    from activation_log_ok [OF xs(2) [unfolded ok]]
    show "kernel_told (abs_target_path s) xs" "node_observed xs"
      "\<exists>dev. abs_first_partition_device (snd (kpartx_minus_a w s)) = Some dev \<and>
             dev \<noteq> [] \<and> last xs = Exists dev True"
      by simp_all
  qed
qed

theorem first_partition_device_set_before_observed_witness:
  "fst (kpartx_minus_a calm host1) = Inr ()
   \<and> abs_first_partition_device (snd (kpartx_minus_a calm host1)) = Some ''/dev/mapper/loop0p1''
   \<and> kernel_told ''/dev/loop0'' (trace (snd (kpartx_minus_a calm host1)))
   \<and> node_observed (trace (snd (kpartx_minus_a calm host1)))"
  using first_partition_device_set_before_observed [of calm host1]
  by (simp add: kpartx_minus_a_def calm_def host1_def action_defs request_defs command_defs
      set_first_partition_device_def startswith_def numeral_3_eq_3 kernel_told_def)

text \<open>
  The node of a loop device never appears: the run ends with the field set although the
  node has never been observed.
\<close>

theorem first_partition_device_set_but_node_never_seen:
  "abs_first_partition_device (snd (run node_never_appears host1)) = Some ''/dev/mapper/loop0p1''
   \<and> \<not> node_observed (trace (snd (run node_never_appears host1)))"
  by (simp add: run_defs unshare_def partition_device_def set_disk_id_in_mbr_def
      kpartx_minus_a_def node_never_appears_def calm_def host1_def action_defs request_defs
      command_defs set_first_partition_device_def startswith_def numeral_3_eq_3
      node_observed_def)

text \<open>
  In the same world \<^verbatim>\<open>kpartx -a\<close> has succeeded when the run gives up on the node, and
  \<^verbatim>\<open>kpartx -d\<close> is never called: the executor's call log ends with \<^verbatim>\<open>kpartx -a\<close>.
\<close>

theorem activation_not_released_when_node_never_appears:
  "commands (trace (snd (run node_never_appears host1))) =
     [[''parted'', ''--script'', ''/dev/loop0'', ''mklabel'', ''msdos''],
      [''parted'', ''--align'', ''optimal'', ''--script'', ''/dev/loop0'', ''mkpart'',
       ''primary'', ''ext4'', ''1'', ''100%''],
      [''parted'', ''--script'', ''/dev/loop0'', ''set'', ''1'', ''boot'', ''on''],
      [''kpartx'', ''-a'', ''-p'', ''p'', ''-s'', ''/dev/loop0'']]
   \<and> Call [''kpartx'', ''-a'', ''-p'', ''p'', ''-s'', ''/dev/loop0''] None None
       \<in> set (trace (snd (run node_never_appears host1)))
   \<and> fst (run node_never_appears host1) = Inl (PartitionDeviceMissing ''/dev/mapper/loop0p1'')"
  by (simp add: run_defs unshare_def partition_device_def set_disk_id_in_mbr_def
      kpartx_minus_a_def node_never_appears_def calm_def host1_def action_defs request_defs
      command_defs set_first_partition_device_def startswith_def numeral_3_eq_3
      commands_def PartitionDeviceMissing_def)

subsection \<open>Detection of grub2-install\<close>







end
